theory Spec2Isabelle
  imports Main
begin

section \<open>Errors and time\<close>

text \<open>
  Go errors are values built by \<^verbatim>\<open>errors.New(msg)\<close> and wrapped by
  \<^verbatim>\<open>fmt.Errorf("prefix: %w", err)\<close>. The HTTP handlers tell them apart by the text
  of \<^verbatim>\<open>err.Error()\<close>, so the model keeps the text. A run-time panic (a negative
  length given to \<^verbatim>\<open>make\<close>, an index out of range) is a third constructor: it is
  never wrapped, it unwinds.
\<close>

datatype error = New string | Errorf string error | Panic string

fun Error :: "error \<Rightarrow> string" where
  "Error (New msg) = msg"
| "Error (Errorf prefix err) = prefix @ Error err"
| "Error (Panic msg) = msg"

fun is_panic :: "error \<Rightarrow> bool" where
  "is_panic (Panic msg) = True"
| "is_panic (New msg) = False"
| "is_panic (Errorf prefix err) = False"

text \<open>
  An instant is a number of nanoseconds since the Unix epoch, a duration a number of
  nanoseconds (\<^verbatim>\<open>time.Duration\<close>). Every reading of a clock (\<^verbatim>\<open>time.Now()\<close> in
  the service, \<^verbatim>\<open>NOW()\<close> in a query) is an input of the function that reads it.
\<close>

definition Second :: int where
  "Second = 1000000000"

definition Minute :: int where
  "Minute = 60 * Second"

definition Hour :: int where
  "Hour = 60 * Minute"

text \<open>
  A \<^verbatim>\<open>time.Duration\<close> is an \<^verbatim>\<open>int64\<close>: a product of durations wraps around.
\<close>

definition int64 :: "int \<Rightarrow> int" where
  "int64 x = (x + 2 ^ 63) mod 2 ^ 64 - 2 ^ 63"

text \<open>\<^verbatim>\<open>t.Unix()\<close>: the whole seconds of an instant, rounded down.\<close>

definition Unix :: "int \<Rightarrow> int" where
  "Unix t = t div Second"

section \<open>The OTP record (models/otp.go)\<close>

text \<open>
  The five persisted columns of table \<^verbatim>\<open>otps\<close>. The struct's \<^verbatim>\<open>ID\<close> field is
  neither written by the INSERT nor read by the SELECT of the repository.
\<close>

record OTP =
  PhoneNumber :: string
  Code :: string
  ExpiresAt :: int
  CreatedAt :: int
  Used :: bool

text \<open>
  \<^verbatim>\<open>NewOTP\<close> reads the clock twice: once for \<^verbatim>\<open>ExpiresAt\<close>, then for
  \<^verbatim>\<open>CreatedAt\<close>.
\<close>

definition NewOTP :: "int \<Rightarrow> int \<Rightarrow> string \<Rightarrow> string \<Rightarrow> int \<Rightarrow> OTP" where
  "NewOTP now1 now2 phoneNumber code expiryMinutes =
     \<lparr>OTP.PhoneNumber = phoneNumber,
      OTP.Code = code,
      OTP.ExpiresAt = now1 + int64 (expiryMinutes * Minute),
      OTP.CreatedAt = now2,
      OTP.Used = False\<rparr>"

definition IsExpired :: "int \<Rightarrow> OTP \<Rightarrow> bool" where
  "IsExpired now otp = (now > OTP.ExpiresAt otp)"

definition IsValid :: "int \<Rightarrow> OTP \<Rightarrow> bool" where
  "IsValid now otp = (\<not> OTP.Used otp \<and> \<not> IsExpired now otp)"

section \<open>The OTP repository (repository/otp\_repository.go)\<close>

text \<open>
  The table is the list of its rows, in the order of their insertion. A column holds
  the instant it was given: the precision and the time zone of the columns are not in
  the model. Each statement takes \<open>fault\<close>, the error the driver returns for it, if
  any; a statement that fails changes nothing.
\<close>

definition Create :: "error option \<Rightarrow> OTP \<Rightarrow> OTP list \<Rightarrow> error option \<times> OTP list" where
  "Create fault otp rows =
     (case fault of
        Some err \<Rightarrow> (Some err, rows)
      | None \<Rightarrow> (None, rows @ [otp]))"

text \<open>
  \<^verbatim>\<open>WHERE phone_number = $1 AND used = false AND expires_at > NOW()
  ORDER BY created_at DESC LIMIT 1\<close>; no row is \<^verbatim>\<open>sql.ErrNoRows\<close>, returned as
  \<^verbatim>\<open>nil, nil\<close>. SQL leaves the order of rows with equal \<^verbatim>\<open>created_at\<close> open; the
  stable sort keeps the order of the table there.
\<close>

definition GetByPhoneNumber :: "error option \<Rightarrow> int \<Rightarrow> string \<Rightarrow> OTP list \<Rightarrow> error + OTP option" where
  "GetByPhoneNumber fault NOW phoneNumber rows =
     (case fault of
        Some err \<Rightarrow> Inl err
      | None \<Rightarrow>
          (case take 1 (sort_key (\<lambda>r. - OTP.CreatedAt r)
                  (filter (\<lambda>r. OTP.PhoneNumber r = phoneNumber \<and> OTP.Used r = False \<and> OTP.ExpiresAt r > NOW) rows)) of
             [] \<Rightarrow> Inr None
           | otp # rest \<Rightarrow> Inr (Some otp)))"

text \<open>\<^verbatim>\<open>UPDATE otps SET used = true WHERE phone_number = $1 AND used = false\<close>\<close>

definition MarkAsUsed :: "error option \<Rightarrow> string \<Rightarrow> OTP list \<Rightarrow> error option \<times> OTP list" where
  "MarkAsUsed fault phoneNumber rows =
     (case fault of
        Some err \<Rightarrow> (Some err, rows)
      | None \<Rightarrow>
          (None, map (\<lambda>r. if OTP.PhoneNumber r = phoneNumber \<and> OTP.Used r = False
                          then r\<lparr>OTP.Used := True\<rparr> else r) rows))"

text \<open>\<^verbatim>\<open>DELETE FROM otps WHERE expires_at < NOW()\<close>\<close>

definition DeleteExpired :: "error option \<Rightarrow> int \<Rightarrow> OTP list \<Rightarrow> error option \<times> OTP list" where
  "DeleteExpired fault NOW rows =
     (case fault of
        Some err \<Rightarrow> (Some err, rows)
      | None \<Rightarrow> (None, filter (\<lambda>r. \<not> OTP.ExpiresAt r < NOW) rows))"

text \<open>
  \<^verbatim>\<open>SELECT COUNT(*) FROM otps WHERE phone_number = $1 AND created_at >= $2\<close>; when the
  scan fails the count is still the zero value.
\<close>

definition GetRecentOTPCount :: "error option \<Rightarrow> string \<Rightarrow> int \<Rightarrow> OTP list \<Rightarrow> int \<times> error option" where
  "GetRecentOTPCount fault phoneNumber since rows =
     (case fault of
        Some err \<Rightarrow> (0, Some err)
      | None \<Rightarrow>
          (int (length (filter (\<lambda>r. OTP.PhoneNumber r = phoneNumber \<and> OTP.CreatedAt r \<ge> since) rows)), None))"

section \<open>Configuration (config/config.go)\<close>

text \<open>
  Of the configuration, the fields the service reads: \<^verbatim>\<open>JWT.Secret\<close>,
  \<^verbatim>\<open>JWT.ExpiryHours\<close>, \<^verbatim>\<open>OTP.ExpiryMinutes\<close>, \<^verbatim>\<open>OTP.Length\<close>,
  \<^verbatim>\<open>RateLimit.MaxRequests\<close> and \<^verbatim>\<open>RateLimit.WindowMinutes\<close>.
\<close>

record Config =
  JWT_Secret :: string
  JWT_ExpiryHours :: int
  OTP_ExpiryMinutes :: int
  OTP_Length :: int
  RateLimit_MaxRequests :: int
  RateLimit_WindowMinutes :: int

definition GetJWTExpiry :: "Config \<Rightarrow> int" where
  "GetJWTExpiry c = int64 (JWT_ExpiryHours c * Hour)"

definition GetOTPExpiry :: "Config \<Rightarrow> int" where
  "GetOTPExpiry c = int64 (OTP_ExpiryMinutes c * Minute)"

definition GetRateLimitWindow :: "Config \<Rightarrow> int" where
  "GetRateLimitWindow c = int64 (RateLimit_WindowMinutes c * Minute)"

section \<open>Users (models/user.go)\<close>

record User =
  ID :: string
  PhoneNumber :: string
  CreatedAt :: int
  UpdatedAt :: int
  LastLoginAt :: "int option"

record UserResponse =
  ID :: string
  PhoneNumber :: string
  CreatedAt :: int
  LastLoginAt :: "int option"

text \<open>\<open>uuid\<close> is the string of \<^verbatim>\<open>uuid.New()\<close>, \<open>now\<close> the one reading of the clock.\<close>

definition NewUser :: "string \<Rightarrow> int \<Rightarrow> string \<Rightarrow> User" where
  "NewUser uuid now phoneNumber =
     \<lparr>User.ID = uuid,
      User.PhoneNumber = phoneNumber,
      User.CreatedAt = now,
      User.UpdatedAt = now,
      User.LastLoginAt = None\<rparr>"

definition ToResponse :: "User \<Rightarrow> UserResponse" where
  "ToResponse u =
     \<lparr>UserResponse.ID = User.ID u,
      UserResponse.PhoneNumber = User.PhoneNumber u,
      UserResponse.CreatedAt = User.CreatedAt u,
      UserResponse.LastLoginAt = User.LastLoginAt u\<rparr>"

definition UpdateLastLogin :: "int \<Rightarrow> User \<Rightarrow> User" where
  "UpdateLastLogin now u = u\<lparr>User.LastLoginAt := Some now, User.UpdatedAt := now\<rparr>"

section \<open>The user repository (repository/user\_repository.go)\<close>

text \<open>
  Table \<^verbatim>\<open>users\<close> is the list of its rows; \<open>fault\<close> is the driver's error for the
  statement, if any.

  \<^verbatim>\<open>SELECT ... FROM users WHERE phone_number = $1\<close>, the first row scanned; no row is
  \<^verbatim>\<open>sql.ErrNoRows\<close>, returned as \<^verbatim>\<open>nil, nil\<close>.
\<close>

definition User_GetByPhoneNumber :: "error option \<Rightarrow> string \<Rightarrow> User list \<Rightarrow> error + User option" where
  "User_GetByPhoneNumber fault phoneNumber rows =
     (case fault of
        Some err \<Rightarrow> Inl err
      | None \<Rightarrow> Inr (find (\<lambda>u. User.PhoneNumber u = phoneNumber) rows))"

text \<open>
  \<^verbatim>\<open>INSERT INTO users (id, phone_number, created_at, updated_at, last_login_at)\<close>; a
  violation of a constraint of the table is a fault of the statement.
\<close>

definition User_Create :: "error option \<Rightarrow> User \<Rightarrow> User list \<Rightarrow> error option \<times> User list" where
  "User_Create fault user rows =
     (case fault of
        Some err \<Rightarrow> (Some err, rows)
      | None \<Rightarrow> (None, rows @ [user]))"

text \<open>
  \<^verbatim>\<open>UPDATE users SET phone_number = $2, updated_at = $3, last_login_at = $4 WHERE id = $1\<close>
\<close>

definition User_Update :: "error option \<Rightarrow> User \<Rightarrow> User list \<Rightarrow> error option \<times> User list" where
  "User_Update fault user rows =
     (case fault of
        Some err \<Rightarrow> (Some err, rows)
      | None \<Rightarrow>
          (None, map (\<lambda>u. if User.ID u = User.ID user
                          then u\<lparr>User.PhoneNumber := User.PhoneNumber user,
                                 User.UpdatedAt := User.UpdatedAt user,
                                 User.LastLoginAt := User.LastLoginAt user\<rparr>
                          else u) rows))"

section \<open>Requests, responses and claims (models/otp.go, models/auth.go)\<close>

record OTPVerification =
  PhoneNumber :: string
  Code :: string

record OTPResponse =
  Message :: string
  ExpiresIn :: int

record Claims =
  UserID :: string
  PhoneNumber :: string
  Exp :: int

record AuthResponse =
  Token :: string
  User :: UserResponse
  ExpiresAt :: int

text \<open>\<^verbatim>\<open>GetExpirationTime\<close>: \<^verbatim>\<open>time.Unix(c.Exp, 0)\<close>.\<close>

definition GetExpirationTime :: "Claims \<Rightarrow> int" where
  "GetExpirationTime c = Claims.Exp c * Second"

section \<open>The token library\<close>

text \<open>
  \<^verbatim>\<open>github.com/golang-jwt/jwt/v5\<close> is a dependency, not code of the repository. Its
  signing methods are the types the key function's type assertion tells apart; the
  string is the \<^verbatim>\<open>alg\<close> of the method.
\<close>

datatype SigningMethod =
    SigningMethodHMAC string
  | SigningMethodRSA string
  | SigningMethodRSAPSS string
  | SigningMethodECDSA string
  | SigningMethodEd25519
  | SigningMethodNone

definition SigningMethodHS256 :: SigningMethod where
  "SigningMethodHS256 = SigningMethodHMAC ''HS256''"

fun Alg :: "SigningMethod \<Rightarrow> string" where
  "Alg (SigningMethodHMAC name) = name"
| "Alg (SigningMethodRSA name) = name"
| "Alg (SigningMethodRSAPSS name) = name"
| "Alg (SigningMethodECDSA name) = name"
| "Alg SigningMethodEd25519 = ''EdDSA''"
| "Alg SigningMethodNone = ''none''"

record jwt_Token =
  Method :: SigningMethod
  Claims :: Claims
  Valid :: bool

text \<open>
  What the library does with bytes is a parameter: \<open>SignedString\<close> serialises and signs
  a token, \<open>ParseUnverified\<close> decodes a token string (or fails on a malformed one or an
  unknown \<^verbatim>\<open>alg\<close>), \<open>Verify method tokenString key\<close> checks the signature of the token
  string under a method and a key.
\<close>

record jwt_library =
  SignedString :: "SigningMethod \<Rightarrow> Claims \<Rightarrow> string \<Rightarrow> error + string"
  ParseUnverified :: "string \<Rightarrow> error + jwt_Token"
  Verify :: "SigningMethod \<Rightarrow> string \<Rightarrow> string \<Rightarrow> error option"

text \<open>
  \<^verbatim>\<open>jwt.ParseWithClaims\<close> in the order of the library's parser: decode, ask the key
  function for the key, verify the signature, validate the claims (the token is expired
  unless \<open>now\<close> is before \<^verbatim>\<open>GetExpirationTime()\<close>), mark the token valid.
\<close>

definition ParseWithClaims ::
  "jwt_library \<Rightarrow> int \<Rightarrow> string \<Rightarrow> (jwt_Token \<Rightarrow> error + string) \<Rightarrow> error + jwt_Token" where
  "ParseWithClaims lib now tokenString keyFunc =
     (case ParseUnverified lib tokenString of
        Inl err \<Rightarrow> Inl (Errorf ''token is malformed: '' err)
      | Inr token \<Rightarrow>
          (case keyFunc token of
             Inl err \<Rightarrow> Inl (Errorf ''token is unverifiable: error while executing keyfunc: '' err)
           | Inr key \<Rightarrow>
               (case Verify lib (Method token) tokenString key of
                  Some err \<Rightarrow> Inl (Errorf ''token signature is invalid: '' err)
                | None \<Rightarrow>
                    if now < GetExpirationTime (jwt_Token.Claims token)
                    then Inr (token\<lparr>Valid := True\<rparr>)
                    else Inl (New ''token has invalid claims: token is expired''))))"

section \<open>The authentication service (services/auth\_service.go)\<close>

text \<open>
  The state the service works on: the two tables and the lines printed to the console
  (the arguments of the \<^verbatim>\<open>Printf\<close>: phone number, code, minutes).
\<close>

record state =
  otps :: "OTP list"
  users :: "User list"
  console :: "(string \<times> string \<times> int) list"

subsection \<open>generateRandomCode\<close>

definition digits :: string where
  "digits = ''0123456789''"

text \<open>
  \<open>rand_Int i\<close> is the outcome of the call of \<^verbatim>\<open>rand.Int(rand.Reader, 10)\<close> in
  iteration \<open>i\<close>: an error of the entropy source, or the number drawn. The loop runs over
  the indices of \<open>code\<close> and stops at the first error.
\<close>

fun generateRandomCode_loop :: "(nat \<Rightarrow> error + nat) \<Rightarrow> nat list \<Rightarrow> string \<Rightarrow> error + string" where
  "generateRandomCode_loop rand_Int [] code = Inr code"
| "generateRandomCode_loop rand_Int (i # indices) code =
     (case rand_Int i of
        Inl err \<Rightarrow> Inl err
      | Inr num \<Rightarrow>
          if num < length digits
          then generateRandomCode_loop rand_Int indices (code[i := digits ! num])
          else Inl (Panic ''index out of range''))"

text \<open>
  \<^verbatim>\<open>make([]byte, length)\<close> panics when the length is negative or above the
  allocation limit of the runtime (\<^verbatim>\<open>maxAlloc\<close>, 2 to the 48 bytes on the 64-bit
  platforms), and the runtime stops the process when it has not that much memory to
  give: \<open>mem\<close> is the number of bytes it can allocate in this run.
\<close>

definition maxAlloc :: int where
  "maxAlloc = 2 ^ 48"

definition generateRandomCode :: "(nat \<Rightarrow> error + nat) \<Rightarrow> int \<Rightarrow> int \<Rightarrow> error + string" where
  "generateRandomCode rand_Int mem len =
     (if len < 0 \<or> len > maxAlloc then Inl (Panic ''makeslice: len out of range'')
      else if len > mem then Inl (Panic ''fatal error: runtime: out of memory'')
      else generateRandomCode_loop rand_Int [0..<nat len] (replicate (nat len) (CHR 0x00)))"

subsection \<open>GenerateOTP\<close>

text \<open>What one call of \<^verbatim>\<open>GenerateOTP\<close> reads from outside, in the order it reads it.\<close>

record generate_env =
  now_since :: int
  count_fault :: "error option"
  memory :: int
  rand_Int :: "nat \<Rightarrow> error + nat"
  now_expires :: int
  now_created :: int
  create_fault :: "error option"

definition GenerateOTP :: "Config \<Rightarrow> generate_env \<Rightarrow> string \<Rightarrow> state \<Rightarrow> (error + OTPResponse) \<times> state" where
  "GenerateOTP config env phoneNumber s =
     (let since = now_since env + int64 (- GetRateLimitWindow config) in
      case GetRecentOTPCount (count_fault env) phoneNumber since (otps s) of
        (count, Some err) \<Rightarrow> (Inl (Errorf ''failed to check rate limit: '' err), s)
      | (count, None) \<Rightarrow>
          if count \<ge> RateLimit_MaxRequests config
          then (Inl (New ''rate limit exceeded. Please try again later''), s)
          else
            (case generateRandomCode (rand_Int env) (memory env) (OTP_Length config) of
               Inl err \<Rightarrow>
                 (Inl (if is_panic err then err else Errorf ''failed to generate OTP: '' err), s)
             | Inr code \<Rightarrow>
                 (let otp = NewOTP (now_expires env) (now_created env) phoneNumber code (OTP_ExpiryMinutes config) in
                  case Create (create_fault env) otp (otps s) of
                    (Some err, rows) \<Rightarrow> (Inl (Errorf ''failed to save OTP: '' err), s\<lparr>otps := rows\<rparr>)
                  | (None, rows) \<Rightarrow>
                      (Inr \<lparr>Message = ''OTP sent successfully'', ExpiresIn = OTP_ExpiryMinutes config\<rparr>,
                       s\<lparr>otps := rows,
                         console := console s @ [(phoneNumber, code, OTP_ExpiryMinutes config)]\<rparr>))))"

subsection \<open>generateJWT and ValidateToken\<close>

definition generateJWT ::
  "Config \<Rightarrow> int \<Rightarrow> (SigningMethod \<Rightarrow> Claims \<Rightarrow> string \<Rightarrow> error + string) \<Rightarrow> User \<Rightarrow> error + string \<times> int" where
  "generateJWT config now signedString user =
     (let expiresAt = now + GetJWTExpiry config;
          claims = \<lparr>UserID = User.ID user,
                    Claims.PhoneNumber = User.PhoneNumber user,
                    Exp = Unix expiresAt\<rparr>
      in case signedString SigningMethodHS256 claims (JWT_Secret config) of
           Inl err \<Rightarrow> Inl err
         | Inr tokenString \<Rightarrow> Inr (tokenString, expiresAt))"

text \<open>
  The key function given to the parser: the type assertion
  \<^verbatim>\<open>token.Method.(*jwt.SigningMethodHMAC)\<close>, then the secret.
\<close>

definition keyFunc :: "Config \<Rightarrow> jwt_Token \<Rightarrow> error + string" where
  "keyFunc config token =
     (case Method token of
        SigningMethodHMAC name \<Rightarrow> Inr (JWT_Secret config)
      | other \<Rightarrow> Inl (New (''unexpected signing method: '' @ Alg other)))"

definition ValidateToken :: "Config \<Rightarrow> jwt_library \<Rightarrow> int \<Rightarrow> string \<Rightarrow> error + Claims" where
  "ValidateToken config lib now tokenString =
     (case ParseWithClaims lib now tokenString (keyFunc config) of
        Inl err \<Rightarrow> Inl (Errorf ''invalid token: '' err)
      | Inr token \<Rightarrow>
          if Valid token then Inr (jwt_Token.Claims token)
          else Inl (New ''invalid token''))"

subsection \<open>VerifyOTP\<close>

text \<open>What one call of \<^verbatim>\<open>VerifyOTP\<close> reads from outside, in the order it reads it.\<close>

record verify_env =
  get_otp_fault :: "error option"
  sql_NOW :: int
  now_IsValid :: int
  mark_fault :: "error option"
  get_user_fault :: "error option"
  uuid_New :: string
  now_NewUser :: int
  create_user_fault :: "error option"
  now_UpdateLastLogin :: int
  update_user_fault :: "error option"
  now_generateJWT :: int
  token_SignedString :: "SigningMethod \<Rightarrow> Claims \<Rightarrow> string \<Rightarrow> error + string"

text \<open>Lines 99 to 131 of \<^verbatim>\<open>VerifyOTP\<close>: look the user up, create it, update it, mint.\<close>

definition VerifyOTP_user :: "Config \<Rightarrow> verify_env \<Rightarrow> string \<Rightarrow> state \<Rightarrow> (error + AuthResponse) \<times> state" where
  "VerifyOTP_user config env phoneNumber s =
     (case User_GetByPhoneNumber (get_user_fault env) phoneNumber (users s) of
        Inl err \<Rightarrow> (Inl (Errorf ''failed to get user: '' err), s)
      | Inr found \<Rightarrow>
          (case (case found of
                   Some user \<Rightarrow> (None, user, s)
                 | None \<Rightarrow>
                     (let user = NewUser (uuid_New env) (now_NewUser env) phoneNumber in
                      case User_Create (create_user_fault env) user (users s) of
                        (err, rows) \<Rightarrow> (err, user, s\<lparr>users := rows\<rparr>))) of
             (Some err, user, s1) \<Rightarrow> (Inl (Errorf ''failed to create user: '' err), s1)
           | (None, user, s1) \<Rightarrow>
               (let user = UpdateLastLogin (now_UpdateLastLogin env) user in
                case User_Update (update_user_fault env) user (users s1) of
                  (Some err, rows) \<Rightarrow> (Inl (Errorf ''failed to update user: '' err), s1\<lparr>users := rows\<rparr>)
                | (None, rows) \<Rightarrow>
                    (case generateJWT config (now_generateJWT env) (token_SignedString env) user of
                       Inl err \<Rightarrow> (Inl (Errorf ''failed to generate token: '' err), s1\<lparr>users := rows\<rparr>)
                     | Inr (token, expiresAt) \<Rightarrow>
                         (Inr \<lparr>Token = token, User = ToResponse user, AuthResponse.ExpiresAt = expiresAt\<rparr>,
                          s1\<lparr>users := rows\<rparr>)))))"

text \<open>
  Lines 83 to 97 of \<^verbatim>\<open>VerifyOTP\<close>, then the rest: \<open>otp\<close> is the struct scanned at
  line 74, \<open>s\<close> the database when the statement of line 94 runs.
\<close>

definition VerifyOTP_checked ::
  "Config \<Rightarrow> verify_env \<Rightarrow> OTPVerification \<Rightarrow> OTP \<Rightarrow> state \<Rightarrow> (error + AuthResponse) \<times> state" where
  "VerifyOTP_checked config env verification otp s =
     (if OTP.Code otp \<noteq> OTPVerification.Code verification
      then (Inl (New ''invalid OTP code''), s)
      else if \<not> IsValid (now_IsValid env) otp
      then (Inl (New ''OTP has expired''), s)
      else
        (case MarkAsUsed (mark_fault env) (OTPVerification.PhoneNumber verification) (otps s) of
           (Some err, rows) \<Rightarrow> (Inl (Errorf ''failed to mark OTP as used: '' err), s\<lparr>otps := rows\<rparr>)
         | (None, rows) \<Rightarrow>
             VerifyOTP_user config env (OTPVerification.PhoneNumber verification) (s\<lparr>otps := rows\<rparr>)))"

text \<open>\<^verbatim>\<open>VerifyOTP\<close>, one request alone on the database.\<close>

definition VerifyOTP :: "Config \<Rightarrow> verify_env \<Rightarrow> OTPVerification \<Rightarrow> state \<Rightarrow> (error + AuthResponse) \<times> state" where
  "VerifyOTP config env verification s =
     (case GetByPhoneNumber (get_otp_fault env) (sql_NOW env) (OTPVerification.PhoneNumber verification) (otps s) of
        Inl err \<Rightarrow> (Inl (Errorf ''failed to get OTP: '' err), s)
      | Inr None \<Rightarrow> (Inl (New ''invalid or expired OTP''), s)
      | Inr (Some otp) \<Rightarrow> VerifyOTP_checked config env verification otp s)"

text \<open>
  \<^verbatim>\<open>VerifyOTP\<close> with other requests at work: \<open>between\<close> is what they do to the
  database after the query of line 74 has answered and before line 83 goes on. The
  service holds no lock and opens no transaction, and \<^verbatim>\<open>MarkAsUsed\<close> drops the
  number of rows it changed.
\<close>

definition VerifyOTP_interleaved ::
  "Config \<Rightarrow> verify_env \<Rightarrow> OTPVerification \<Rightarrow> (state \<Rightarrow> state) \<Rightarrow> state \<Rightarrow> (error + AuthResponse) \<times> state" where
  "VerifyOTP_interleaved config env verification between s =
     (case GetByPhoneNumber (get_otp_fault env) (sql_NOW env) (OTPVerification.PhoneNumber verification) (otps s) of
        Inl err \<Rightarrow> (Inl (Errorf ''failed to get OTP: '' err), between s)
      | Inr None \<Rightarrow> (Inl (New ''invalid or expired OTP''), between s)
      | Inr (Some otp) \<Rightarrow> VerifyOTP_checked config env verification otp (between s))"

section \<open>The handlers' view of an error (handlers/auth\_handler.go)\<close>

text \<open>
  The handlers compare \<^verbatim>\<open>err.Error()\<close> with the messages of the service and choose
  the HTTP status.
\<close>

definition GenerateOTP_status :: "error + OTPResponse \<Rightarrow> nat" where
  "GenerateOTP_status r =
     (case r of
        Inl err \<Rightarrow>
          if Error err = ''rate limit exceeded. Please try again later'' then 429 else 500
      | Inr response \<Rightarrow> 200)"

definition VerifyOTP_status :: "error + AuthResponse \<Rightarrow> nat" where
  "VerifyOTP_status r =
     (case r of
        Inl err \<Rightarrow>
          if Error err = ''invalid or expired OTP'' \<or> Error err = ''invalid OTP code'' \<or>
             Error err = ''OTP has expired''
          then 401 else 500
      | Inr response \<Rightarrow> 200)"

text \<open>The names the specification gives to the errors of the service.\<close>

definition RateLimited :: error where
  "RateLimited = New ''rate limit exceeded. Please try again later''"

definition NoActiveChallenge :: error where
  "NoActiveChallenge = New ''invalid or expired OTP''"

definition CodeMismatch :: error where
  "CodeMismatch = New ''invalid OTP code''"

definition ChallengeExpired :: error where
  "ChallengeExpired = New ''OTP has expired''"

section \<open>An example run\<close>

text \<open>
  The configuration of the service's tests, and a table with three challenges of one
  identity inside the rate-limit window: one consumed, one expired, one outstanding.
\<close>

definition example_config :: Config where
  "example_config =
     \<lparr>JWT_Secret = ''test-secret'', JWT_ExpiryHours = 24,
      OTP_ExpiryMinutes = 2, OTP_Length = 6,
      RateLimit_MaxRequests = 3, RateLimit_WindowMinutes = 10\<rparr>"

definition example_state :: state where
  "example_state =
     \<lparr>otps =
        [\<lparr>OTP.PhoneNumber = ''+1555000111'', OTP.Code = ''111111'',
          OTP.ExpiresAt = 220 * Second, OTP.CreatedAt = 100 * Second, OTP.Used = True\<rparr>,
         \<lparr>OTP.PhoneNumber = ''+1555000111'', OTP.Code = ''222222'',
          OTP.ExpiresAt = 420 * Second, OTP.CreatedAt = 300 * Second, OTP.Used = False\<rparr>,
         \<lparr>OTP.PhoneNumber = ''+1555000111'', OTP.Code = ''333333'',
          OTP.ExpiresAt = 580 * Second, OTP.CreatedAt = 460 * Second, OTP.Used = False\<rparr>,
         \<lparr>OTP.PhoneNumber = ''+1555000222'', OTP.Code = ''444444'',
          OTP.ExpiresAt = 590 * Second, OTP.CreatedAt = 470 * Second, OTP.Used = False\<rparr>],
      users =
        [\<lparr>User.ID = ''550e8400-e29b-41d4-a716-446655440000'', User.PhoneNumber = ''+1555000222'',
          User.CreatedAt = 50 * Second, User.UpdatedAt = 50 * Second,
          User.LastLoginAt = Some (50 * Second)\<rparr>],
      console = []\<rparr>"

definition example_rand_Int :: "nat \<Rightarrow> error + nat" where
  "example_rand_Int i = Inr ((7 * i + 3) mod 10)"

definition example_generate_env :: generate_env where
  "example_generate_env =
     \<lparr>now_since = 500 * Second, count_fault = None, memory = 2 ^ 30,
      rand_Int = example_rand_Int,
      now_expires = 500 * Second + 1, now_created = 500 * Second + 2,
      create_fault = None\<rparr>"

text \<open>A stand-in for the library's serialisation, and one call of \<^verbatim>\<open>VerifyOTP\<close>.\<close>

definition example_SignedString :: "SigningMethod \<Rightarrow> Claims \<Rightarrow> string \<Rightarrow> error + string" where
  "example_SignedString method claims key =
     Inr (Alg method @ ''.'' @ UserID claims @ ''.'' @ Claims.PhoneNumber claims)"

definition example_verify_env :: verify_env where
  "example_verify_env =
     \<lparr>get_otp_fault = None, sql_NOW = 500 * Second, now_IsValid = 500 * Second + 3,
      mark_fault = None, get_user_fault = None,
      uuid_New = ''6ba7b810-9dad-11d1-80b4-00c04fd430c8'', now_NewUser = 500 * Second + 4,
      create_user_fault = None, now_UpdateLastLogin = 500 * Second + 5,
      update_user_fault = None, now_generateJWT = 500 * Second + 6,
      token_SignedString = example_SignedString\<rparr>"

text \<open>
  A stand-in for the library's decoding and signature check: four token strings, the
  same claims under four signing methods; a signature verifies under the secret of the
  example configuration, for the two HMAC tokens.
\<close>

definition example_claims :: Claims where
  "example_claims =
     \<lparr>UserID = ''550e8400-e29b-41d4-a716-446655440000'', Claims.PhoneNumber = ''+1555000222'',
      Exp = 2000\<rparr>"

definition example_jwt_library :: jwt_library where
  "example_jwt_library =
     \<lparr>SignedString = example_SignedString,
      ParseUnverified = (\<lambda>tokenString.
        if tokenString = ''hs256-token''
        then Inr \<lparr>Method = SigningMethodHMAC ''HS256'', Claims = example_claims, Valid = False\<rparr>
        else if tokenString = ''hs384-token''
        then Inr \<lparr>Method = SigningMethodHMAC ''HS384'', Claims = example_claims, Valid = False\<rparr>
        else if tokenString = ''rs256-token''
        then Inr \<lparr>Method = SigningMethodRSA ''RS256'', Claims = example_claims, Valid = False\<rparr>
        else if tokenString = ''none-token''
        then Inr \<lparr>Method = SigningMethodNone, Claims = example_claims, Valid = False\<rparr>
        else Inl (New ''token contains an invalid number of segments'')),
      Verify = (\<lambda>method tokenString key.
        if key = ''test-secret'' \<and> (tokenString = ''hs256-token'' \<or> tokenString = ''hs384-token'')
        then None else Some (New ''signature is invalid''))\<rparr>"

text \<open>
  A second request for the same challenge, and the first one seen from it: the first
  request runs whole after the second has fetched the challenge.
\<close>

definition example_verification :: OTPVerification where
  "example_verification =
     \<lparr>OTPVerification.PhoneNumber = ''+1555000111'', OTPVerification.Code = ''333333''\<rparr>"

definition example_other_request :: "state \<Rightarrow> state" where
  "example_other_request s = snd (VerifyOTP example_config example_verify_env example_verification s)"

definition example_second_env :: verify_env where
  "example_second_env =
     example_verify_env\<lparr>now_IsValid := 500 * Second + 7, now_UpdateLastLogin := 500 * Second + 8,
       now_generateJWT := 500 * Second + 9\<rparr>"




section \<open>Properties of the OTP repository\<close>

lemma GetByPhoneNumber_Some_iff:
  "GetByPhoneNumber None NOW phoneNumber rows = Inr (Some otp) \<longleftrightarrow>
     (\<exists>rest. sort_key (\<lambda>r. - OTP.CreatedAt r)
        (filter (\<lambda>r. OTP.PhoneNumber r = phoneNumber \<and> OTP.Used r = False \<and> OTP.ExpiresAt r > NOW) rows) = otp # rest)"
  by (cases "sort_key (\<lambda>r. - OTP.CreatedAt r)
        (filter (\<lambda>r. OTP.PhoneNumber r = phoneNumber \<and> OTP.Used r = False \<and> OTP.ExpiresAt r > NOW) rows)")
     (simp_all add: GetByPhoneNumber_def)

lemma GetByPhoneNumber_None_iff:
  "GetByPhoneNumber None NOW phoneNumber rows = Inr None \<longleftrightarrow>
     filter (\<lambda>r. OTP.PhoneNumber r = phoneNumber \<and> OTP.Used r = False \<and> OTP.ExpiresAt r > NOW) rows = []"
proof -
  let ?L = "filter (\<lambda>r. OTP.PhoneNumber r = phoneNumber \<and> OTP.Used r = False \<and> OTP.ExpiresAt r > NOW) rows"
  have "length (sort_key (\<lambda>r. - OTP.CreatedAt r) ?L) = length ?L"
    by (rule length_sort)
  then have "sort_key (\<lambda>r. - OTP.CreatedAt r) ?L = [] \<longleftrightarrow> ?L = []"
    by (simp only: length_0_conv [symmetric])
  then show ?thesis
    by (cases "sort_key (\<lambda>r. - OTP.CreatedAt r) ?L") (simp_all add: GetByPhoneNumber_def)
qed

lemma GetByPhoneNumber_no_fault_cases:
  "GetByPhoneNumber None NOW phoneNumber rows = Inr None \<or>
   (\<exists>otp. GetByPhoneNumber None NOW phoneNumber rows = Inr (Some otp))"
  by (cases "sort_key (\<lambda>r. - OTP.CreatedAt r)
        (filter (\<lambda>r. OTP.PhoneNumber r = phoneNumber \<and> OTP.Used r = False \<and> OTP.ExpiresAt r > NOW) rows)")
     (simp_all add: GetByPhoneNumber_def)

lemma GetByPhoneNumber_Some_newest:
  assumes "GetByPhoneNumber None NOW phoneNumber rows = Inr (Some otp)"
  shows "otp \<in> set rows \<and> OTP.PhoneNumber otp = phoneNumber \<and> \<not> OTP.Used otp \<and> OTP.ExpiresAt otp > NOW \<and>
         (\<forall>r \<in> set rows. OTP.PhoneNumber r = phoneNumber \<and> \<not> OTP.Used r \<and> OTP.ExpiresAt r > NOW
              \<longrightarrow> OTP.CreatedAt r \<le> OTP.CreatedAt otp)"
proof -
  let ?P = "\<lambda>r. OTP.PhoneNumber r = phoneNumber \<and> OTP.Used r = False \<and> OTP.ExpiresAt r > NOW"
  let ?k = "\<lambda>r. - OTP.CreatedAt r"
  from assms obtain rest where srt: "sort_key ?k (filter ?P rows) = otp # rest"
    unfolding GetByPhoneNumber_Some_iff by blast
  have "set (sort_key ?k (filter ?P rows)) = set (filter ?P rows)"
    by simp
  with srt have mem: "set (filter ?P rows) = insert otp (set rest)"
    by simp
  then have "otp \<in> set (filter ?P rows)"
    by blast
  then have here: "otp \<in> set rows \<and> ?P otp"
    by simp
  have "sorted (map ?k (sort_key ?k (filter ?P rows)))"
    by (rule sorted_sort_key)
  with srt have le: "\<forall>r \<in> set rest. ?k otp \<le> ?k r"
    by simp
  have "\<forall>r \<in> set rows. ?P r \<longrightarrow> OTP.CreatedAt r \<le> OTP.CreatedAt otp"
  proof (intro ballI impI)
    fix r assume "r \<in> set rows" and "?P r"
    then have "r \<in> set (filter ?P rows)" by simp
    with mem have "r = otp \<or> r \<in> set rest" by blast
    with le show "OTP.CreatedAt r \<le> OTP.CreatedAt otp" by auto
  qed
  with here show ?thesis by simp
qed

text \<open>
  C7. When the query runs, \<^verbatim>\<open>GetByPhoneNumber\<close> (LatestValid) returns a row of the table
  that belongs to the identity, is not consumed, expires after the query's \<^verbatim>\<open>NOW()\<close> and
  was created no earlier than any other such row; it returns none, and no error, exactly
  when the table holds no such row.
\<close>

theorem GetByPhoneNumber_latest_valid:
  "(case GetByPhoneNumber None NOW phoneNumber rows of
      Inl err \<Rightarrow> False
    | Inr None \<Rightarrow>
        (\<forall>r \<in> set rows. \<not> (OTP.PhoneNumber r = phoneNumber \<and> \<not> OTP.Used r \<and> OTP.ExpiresAt r > NOW))
    | Inr (Some otp) \<Rightarrow>
        otp \<in> set rows \<and> OTP.PhoneNumber otp = phoneNumber \<and> \<not> OTP.Used otp \<and> OTP.ExpiresAt otp > NOW \<and>
        (\<forall>r \<in> set rows. OTP.PhoneNumber r = phoneNumber \<and> \<not> OTP.Used r \<and> OTP.ExpiresAt r > NOW
             \<longrightarrow> OTP.CreatedAt r \<le> OTP.CreatedAt otp))"
proof -
  consider "GetByPhoneNumber None NOW phoneNumber rows = Inr None"
    | otp where "GetByPhoneNumber None NOW phoneNumber rows = Inr (Some otp)"
    using GetByPhoneNumber_no_fault_cases by blast
  then show ?thesis
  proof cases
    case 1
    then have "filter (\<lambda>r. OTP.PhoneNumber r = phoneNumber \<and> OTP.Used r = False \<and> OTP.ExpiresAt r > NOW) rows = []"
      by (simp add: GetByPhoneNumber_None_iff)
    then have "\<forall>r \<in> set rows. \<not> (OTP.PhoneNumber r = phoneNumber \<and> \<not> OTP.Used r \<and> OTP.ExpiresAt r > NOW)"
      by (simp add: filter_empty_conv)
    with 1 show ?thesis by simp
  next
    case 2
    from GetByPhoneNumber_Some_newest [OF 2] 2 show ?thesis by simp
  qed
qed

theorem GetByPhoneNumber_latest_valid_witness:
  "GetByPhoneNumber None 50 ''+1555000111''
     [\<lparr>OTP.PhoneNumber = ''+1555000111'', OTP.Code = ''111111'', OTP.ExpiresAt = 100, OTP.CreatedAt = 10, OTP.Used = False\<rparr>,
      \<lparr>OTP.PhoneNumber = ''+1555000111'', OTP.Code = ''222222'', OTP.ExpiresAt = 110, OTP.CreatedAt = 20, OTP.Used = False\<rparr>,
      \<lparr>OTP.PhoneNumber = ''+1555000111'', OTP.Code = ''333333'', OTP.ExpiresAt = 120, OTP.CreatedAt = 30, OTP.Used = True\<rparr>,
      \<lparr>OTP.PhoneNumber = ''+1555000111'', OTP.Code = ''444444'', OTP.ExpiresAt = 45, OTP.CreatedAt = 40, OTP.Used = False\<rparr>,
      \<lparr>OTP.PhoneNumber = ''+1555000222'', OTP.Code = ''555555'', OTP.ExpiresAt = 130, OTP.CreatedAt = 45, OTP.Used = False\<rparr>]
   = Inr (Some \<lparr>OTP.PhoneNumber = ''+1555000111'', OTP.Code = ''222222'', OTP.ExpiresAt = 110, OTP.CreatedAt = 20, OTP.Used = False\<rparr>)
   \<and> GetByPhoneNumber None 50 ''+1555000333''
     [\<lparr>OTP.PhoneNumber = ''+1555000111'', OTP.Code = ''111111'', OTP.ExpiresAt = 100, OTP.CreatedAt = 10, OTP.Used = False\<rparr>]
   = Inr None"
  using GetByPhoneNumber_latest_valid [where NOW = 50 and phoneNumber = "''+1555000111''" and rows =
     "[\<lparr>OTP.PhoneNumber = ''+1555000111'', OTP.Code = ''111111'', OTP.ExpiresAt = 100, OTP.CreatedAt = 10, OTP.Used = False\<rparr>,
      \<lparr>OTP.PhoneNumber = ''+1555000111'', OTP.Code = ''222222'', OTP.ExpiresAt = 110, OTP.CreatedAt = 20, OTP.Used = False\<rparr>,
      \<lparr>OTP.PhoneNumber = ''+1555000111'', OTP.Code = ''333333'', OTP.ExpiresAt = 120, OTP.CreatedAt = 30, OTP.Used = True\<rparr>,
      \<lparr>OTP.PhoneNumber = ''+1555000111'', OTP.Code = ''444444'', OTP.ExpiresAt = 45, OTP.CreatedAt = 40, OTP.Used = False\<rparr>,
      \<lparr>OTP.PhoneNumber = ''+1555000222'', OTP.Code = ''555555'', OTP.ExpiresAt = 130, OTP.CreatedAt = 45, OTP.Used = False\<rparr>]"]
  by (simp add: GetByPhoneNumber_def)

section \<open>Consuming challenges\<close>

text \<open>
  C2, as stated, fails: the UPDATE of \<^verbatim>\<open>MarkAsUsed\<close> has no condition on
  \<^verbatim>\<open>expires_at\<close>. A row that expired at 45 is outside the filter of
  \<^verbatim>\<open>GetByPhoneNumber\<close> at 50 and is marked all the same.
\<close>

theorem MarkAsUsed_counterexample:
  "snd (MarkAsUsed None ''+1555000111''
     [\<lparr>OTP.PhoneNumber = ''+1555000111'', OTP.Code = ''111111'', OTP.ExpiresAt = 45, OTP.CreatedAt = 10, OTP.Used = False\<rparr>])
   = [\<lparr>OTP.PhoneNumber = ''+1555000111'', OTP.Code = ''111111'', OTP.ExpiresAt = 45, OTP.CreatedAt = 10, OTP.Used = True\<rparr>]
   \<and> \<not> (OTP.ExpiresAt \<lparr>OTP.PhoneNumber = ''+1555000111'', OTP.Code = ''111111'', OTP.ExpiresAt = 45, OTP.CreatedAt = 10, OTP.Used = False\<rparr> > 50)
   \<and> GetByPhoneNumber None 50 ''+1555000111''
     [\<lparr>OTP.PhoneNumber = ''+1555000111'', OTP.Code = ''111111'', OTP.ExpiresAt = 45, OTP.CreatedAt = 10, OTP.Used = False\<rparr>]
     = Inr None"
  by (simp add: MarkAsUsed_def GetByPhoneNumber_def)

text \<open>
  C2, amended. \<^verbatim>\<open>MarkAsUsed\<close> returns the driver's error, keeps the number and the
  order of the rows, and of every row keeps the phone number, the code, the expiry and
  the creation time; a row is consumed afterwards exactly when it was consumed before
  or the statement ran and the row belongs to the identity, whatever its expiry; a row
  of another identity is the same row afterwards.
\<close>

theorem MarkAsUsed_marks_unconsumed:
  "(case MarkAsUsed fault phoneNumber rows of
      (err, rows') \<Rightarrow>
        err = fault \<and> length rows' = length rows \<and>
        (\<forall>i < length rows.
           OTP.PhoneNumber (rows' ! i) = OTP.PhoneNumber (rows ! i) \<and>
           OTP.Code (rows' ! i) = OTP.Code (rows ! i) \<and>
           OTP.ExpiresAt (rows' ! i) = OTP.ExpiresAt (rows ! i) \<and>
           OTP.CreatedAt (rows' ! i) = OTP.CreatedAt (rows ! i) \<and>
           (OTP.Used (rows' ! i) \<longleftrightarrow>
              OTP.Used (rows ! i) \<or> (fault = None \<and> OTP.PhoneNumber (rows ! i) = phoneNumber)) \<and>
           (OTP.PhoneNumber (rows ! i) \<noteq> phoneNumber \<longrightarrow> rows' ! i = rows ! i)))"
  by (cases fault) (auto simp: MarkAsUsed_def)

theorem MarkAsUsed_marks_unconsumed_witness:
  "MarkAsUsed None ''+1555000111''
     [\<lparr>OTP.PhoneNumber = ''+1555000111'', OTP.Code = ''111111'', OTP.ExpiresAt = 45, OTP.CreatedAt = 10, OTP.Used = False\<rparr>,
      \<lparr>OTP.PhoneNumber = ''+1555000111'', OTP.Code = ''222222'', OTP.ExpiresAt = 110, OTP.CreatedAt = 20, OTP.Used = False\<rparr>,
      \<lparr>OTP.PhoneNumber = ''+1555000222'', OTP.Code = ''555555'', OTP.ExpiresAt = 130, OTP.CreatedAt = 45, OTP.Used = False\<rparr>]
   = (None,
     [\<lparr>OTP.PhoneNumber = ''+1555000111'', OTP.Code = ''111111'', OTP.ExpiresAt = 45, OTP.CreatedAt = 10, OTP.Used = True\<rparr>,
      \<lparr>OTP.PhoneNumber = ''+1555000111'', OTP.Code = ''222222'', OTP.ExpiresAt = 110, OTP.CreatedAt = 20, OTP.Used = True\<rparr>,
      \<lparr>OTP.PhoneNumber = ''+1555000222'', OTP.Code = ''555555'', OTP.ExpiresAt = 130, OTP.CreatedAt = 45, OTP.Used = False\<rparr>])"
  using MarkAsUsed_marks_unconsumed [where fault = None and phoneNumber = "''+1555000111''" and rows =
     "[\<lparr>OTP.PhoneNumber = ''+1555000111'', OTP.Code = ''111111'', OTP.ExpiresAt = 45, OTP.CreatedAt = 10, OTP.Used = False\<rparr>,
      \<lparr>OTP.PhoneNumber = ''+1555000111'', OTP.Code = ''222222'', OTP.ExpiresAt = 110, OTP.CreatedAt = 20, OTP.Used = False\<rparr>,
      \<lparr>OTP.PhoneNumber = ''+1555000222'', OTP.Code = ''555555'', OTP.ExpiresAt = 130, OTP.CreatedAt = 45, OTP.Used = False\<rparr>]"]
  by (simp add: MarkAsUsed_def)

section \<open>The code generator\<close>

lemma generateRandomCode_loop_length:
  "generateRandomCode_loop rnd indices code = Inr out \<Longrightarrow> length out = length code"
  by (induction indices arbitrary: code) (auto split: sum.splits if_splits)

lemma generateRandomCode_loop_keeps:
  "generateRandomCode_loop rnd indices code = Inr out \<Longrightarrow> j \<notin> set indices \<Longrightarrow> out ! j = code ! j"
  by (induction indices arbitrary: code) (auto split: sum.splits if_splits)

lemma generateRandomCode_loop_drawn:
  "generateRandomCode_loop rnd indices code = Inr out \<Longrightarrow> distinct indices \<Longrightarrow>
   j \<in> set indices \<Longrightarrow> j < length code \<Longrightarrow>
   \<exists>num. rnd j = Inr num \<and> num < length digits \<and> out ! j = digits ! num"
proof (induction indices arbitrary: code)
  case Nil
  then show ?case by simp
next
  case (Cons i indices)
  from Cons.prems(1) obtain num where num: "rnd i = Inr num" "num < length digits"
    and rest: "generateRandomCode_loop rnd indices (code[i := digits ! num]) = Inr out"
    by (auto split: sum.splits if_splits)
  show ?case
  proof (cases "j = i")
    case True
    with Cons.prems(2) have "j \<notin> set indices" by simp
    with rest have "out ! j = (code[i := digits ! num]) ! j"
      by (rule generateRandomCode_loop_keeps)
    with True Cons.prems(4) num show ?thesis by simp
  next
    case False
    with Cons.prems have "j \<in> set indices" "distinct indices" "j < length (code[i := digits ! num])"
      by simp_all
    with Cons.IH [OF rest] show ?thesis by blast
  qed
qed

lemma generateRandomCode_loop_error:
  "generateRandomCode_loop rnd indices code = Inl err \<Longrightarrow>
   (\<exists>i \<in> set indices. rnd i = Inl err) \<or> (\<exists>i \<in> set indices. \<exists>num. rnd i = Inr num \<and> \<not> num < length digits)"
  by (induction indices arbitrary: code) (auto split: sum.splits if_splits)

lemma length_digits: "length digits = 10"
  by (simp add: digits_def)

lemma digits_nth_digit: "num < length digits \<Longrightarrow> digits ! num \<in> set ''0123456789''"
  unfolding digits_def by (metis nth_mem)

text \<open>
  C9, as stated, fails: the length is not negative and no draw fails, and the call
  fails all the same. \<^verbatim>\<open>make([]byte, length)\<close> panics for a length above the
  allocation limit, here 2 to the 62, however much memory there is.
\<close>

theorem generateRandomCode_makeslice_counterexample:
  "generateRandomCode example_rand_Int (2 ^ 62) (2 ^ 62) = Inl (Panic ''makeslice: len out of range'') \<and>
   (0::int) \<le> 2 ^ 62 \<and>
   example_rand_Int 0 = Inr 3"
  by (simp add: generateRandomCode_def maxAlloc_def example_rand_Int_def)

text \<open>
  C9, amended. For a length that is not negative, and draws below 10 as \<^verbatim>\<open>rand.Int\<close>
  with bound 10 gives them. When the length is within the allocation limit and the
  memory of the run: a code that is returned has exactly \<open>len\<close> characters, each a
  decimal digit, the one \<^verbatim>\<open>digits\<close> holds at the number drawn in that iteration from
  the random source; an error that is returned is the error of one of the first \<open>len\<close>
  draws. Above the allocation limit the call panics, and within the limit but above the
  memory of the run the process stops. The function is a function of the draws and of
  the memory alone: it has no other effect.
\<close>

theorem generateRandomCode_digits:
  assumes "0 \<le> len" and "\<forall>i num. rnd i = Inr num \<longrightarrow> num < 10"
  shows "(len \<le> maxAlloc \<and> len \<le> mem \<longrightarrow>
            (case generateRandomCode rnd mem len of
               Inr code \<Rightarrow>
                 int (length code) = len \<and>
                 (\<forall>i < length code. code ! i \<in> set ''0123456789'' \<and>
                     (\<exists>num. rnd i = Inr num \<and> code ! i = digits ! num))
             | Inl err \<Rightarrow> \<exists>i < nat len. rnd i = Inl err)) \<and>
         (maxAlloc < len \<longrightarrow>
            generateRandomCode rnd mem len = Inl (Panic ''makeslice: len out of range'')) \<and>
         (len \<le> maxAlloc \<and> mem < len \<longrightarrow>
            generateRandomCode rnd mem len = Inl (Panic ''fatal error: runtime: out of memory''))"
proof (intro conjI impI)
  assume fits: "len \<le> maxAlloc \<and> len \<le> mem"
  show "case generateRandomCode rnd mem len of
               Inr code \<Rightarrow>
                 int (length code) = len \<and>
                 (\<forall>i < length code. code ! i \<in> set ''0123456789'' \<and>
                     (\<exists>num. rnd i = Inr num \<and> code ! i = digits ! num))
             | Inl err \<Rightarrow> \<exists>i < nat len. rnd i = Inl err"
  proof (cases "generateRandomCode rnd mem len")
    case (Inl err)
    with assms(1) fits
    have "generateRandomCode_loop rnd [0..<nat len] (replicate (nat len) (CHR 0x00)) = Inl err"
      by (simp add: generateRandomCode_def)
    from generateRandomCode_loop_error [OF this] assms(2) have "\<exists>i < nat len. rnd i = Inl err"
      by (auto simp: length_digits)
    with Inl show ?thesis by simp
  next
    case (Inr code)
    with assms(1) fits
    have loop: "generateRandomCode_loop rnd [0..<nat len] (replicate (nat len) (CHR 0x00)) = Inr code"
      by (simp add: generateRandomCode_def)
    from generateRandomCode_loop_length [OF loop] have len: "length code = nat len"
      by simp
    have "\<forall>i < length code. code ! i \<in> set ''0123456789'' \<and> (\<exists>num. rnd i = Inr num \<and> code ! i = digits ! num)"
    proof (intro allI impI)
      fix i assume "i < length code"
      with len have "i \<in> set [0..<nat len]" "i < length (replicate (nat len) (CHR 0x00))"
        by simp_all
      with generateRandomCode_loop_drawn [OF loop] obtain num
        where "rnd i = Inr num" "num < length digits" "code ! i = digits ! num"
        by auto
      then show "code ! i \<in> set ''0123456789'' \<and> (\<exists>num. rnd i = Inr num \<and> code ! i = digits ! num)"
        using digits_nth_digit by auto
    qed
    with len assms(1) Inr show ?thesis by simp
  qed
next
  assume "maxAlloc < len"
  then show "generateRandomCode rnd mem len = Inl (Panic ''makeslice: len out of range'')"
    by (simp add: generateRandomCode_def)
next
  assume "len \<le> maxAlloc \<and> mem < len"
  with assms(1) show "generateRandomCode rnd mem len = Inl (Panic ''fatal error: runtime: out of memory'')"
    by (simp add: generateRandomCode_def)
qed

theorem generateRandomCode_digits_witness:
  "generateRandomCode example_rand_Int (2 ^ 30) 6 = Inr ''307418'' \<and>
   int (length ''307418'') = 6 \<and>
   ''307418'' ! 2 \<in> set ''0123456789'' \<and>
   ''307418'' ! 2 = digits ! ((7 * 2 + 3) mod 10) \<and>
   generateRandomCode example_rand_Int (2 ^ 30) (2 ^ 31) = Inl (Panic ''fatal error: runtime: out of memory'')"
proof -
  have nonneg: "(0::int) \<le> 6" "(0::int) \<le> 2 ^ 31"
    by simp_all
  have below: "\<forall>i num. example_rand_Int i = Inr num \<longrightarrow> num < 10"
    by (auto simp: example_rand_Int_def)
  have fits: "(6::int) \<le> maxAlloc \<and> (6::int) \<le> 2 ^ 30"
    "(2 ^ 31 :: int) \<le> maxAlloc \<and> (2 ^ 30 :: int) < 2 ^ 31"
    by (simp_all add: maxAlloc_def)
  have run: "generateRandomCode example_rand_Int (2 ^ 30) 6 = Inr ''307418''"
    by code_simp
  note code = generateRandomCode_digits [OF nonneg(1) below, where mem = "2 ^ 30", THEN conjunct1,
      THEN mp, OF fits(1)]
  note stop = generateRandomCode_digits [OF nonneg(2) below, where mem = "2 ^ 30", THEN conjunct2,
      THEN conjunct2, THEN mp, OF fits(2)]
  from code run have "int (length ''307418'') = 6 \<and> ''307418'' ! 2 \<in> set ''0123456789''"
    by simp
  with run stop show ?thesis
    by (simp add: digits_def)
qed

section \<open>Rate limiting\<close>

lemma int64_id:
  assumes "- (2 ^ 63) \<le> x" and "x < 2 ^ 63"
  shows "int64 x = x"
  using assms by (simp add: int64_def)

lemma int64_range: "- (2 ^ 63) \<le> int64 x \<and> int64 x < 2 ^ 63"
proof -
  have "0 \<le> (x + 2 ^ 63) mod 2 ^ 64" and "(x + 2 ^ 63) mod 2 ^ 64 < (2 ^ 64 :: int)"
    by simp_all
  then show ?thesis
    by (simp add: int64_def)
qed

lemma GetRateLimitWindow_negated:
  assumes "GetRateLimitWindow config \<noteq> - (2 ^ 63)"
  shows "int64 (- GetRateLimitWindow config) = - GetRateLimitWindow config"
proof -
  from int64_range [of "RateLimit_WindowMinutes config * Minute"]
  have "- (2 ^ 63) \<le> GetRateLimitWindow config" and "GetRateLimitWindow config < 2 ^ 63"
    by (simp_all add: GetRateLimitWindow_def)
  with assms show ?thesis
    by (intro int64_id) simp_all
qed

lemma GenerateOTP_limited:
  assumes "count_fault env = None"
    and "int64 (- GetRateLimitWindow config) = - GetRateLimitWindow config"
    and "int (length (filter (\<lambda>r. OTP.PhoneNumber r = phoneNumber \<and>
              OTP.CreatedAt r \<ge> now_since env - GetRateLimitWindow config) (otps s)))
           \<ge> RateLimit_MaxRequests config"
  shows "GenerateOTP config env phoneNumber s = (Inl RateLimited, s)"
  using assms by (simp add: GenerateOTP_def GetRecentOTPCount_def RateLimited_def)

lemma GenerateOTP_created:
  assumes "count_fault env = None"
    and "int64 (- GetRateLimitWindow config) = - GetRateLimitWindow config"
    and "int (length (filter (\<lambda>r. OTP.PhoneNumber r = phoneNumber \<and>
              OTP.CreatedAt r \<ge> now_since env - GetRateLimitWindow config) (otps s)))
           < RateLimit_MaxRequests config"
    and "generateRandomCode (rand_Int env) (memory env) (OTP_Length config) = Inr code"
    and "create_fault env = None"
  shows "GenerateOTP config env phoneNumber s =
     (Inr \<lparr>Message = ''OTP sent successfully'', ExpiresIn = OTP_ExpiryMinutes config\<rparr>,
      s\<lparr>otps := otps s @
            [\<lparr>OTP.PhoneNumber = phoneNumber, OTP.Code = code,
              OTP.ExpiresAt = now_expires env + int64 (OTP_ExpiryMinutes config * Minute),
              OTP.CreatedAt = now_created env, OTP.Used = False\<rparr>],
         console := console s @ [(phoneNumber, code, OTP_ExpiryMinutes config)]\<rparr>)"
  using assms by (simp add: GenerateOTP_def GetRecentOTPCount_def Create_def NewOTP_def)

text \<open>
  C1. When the count query runs, and the window is not the least \<^verbatim>\<open>time.Duration\<close>
  (the one value whose negation is itself): if the number of rows of the identity created at or
  after the window start (\<open>now - window\<close>), consumed and expired ones included, is at
  least \<^verbatim>\<open>MaxRequests\<close>, \<^verbatim>\<open>GenerateOTP\<close> fails with \<open>RateLimited\<close> (status 429),
  the state is unchanged (no row, nothing printed) and the outcome is the same for every
  random source: no code is generated. If the number is below \<^verbatim>\<open>MaxRequests\<close> and
  neither the random source nor the INSERT fails, one row is appended: the identity,
  the generated code, expiry the configured minutes after the clock, not consumed.
\<close>

theorem GenerateOTP_rate_limit:
  assumes "count_fault env = None"
    and "GetRateLimitWindow config \<noteq> - (2 ^ 63)"
  shows "(int (length (filter (\<lambda>r. OTP.PhoneNumber r = phoneNumber \<and>
              OTP.CreatedAt r \<ge> now_since env - GetRateLimitWindow config) (otps s)))
           \<ge> RateLimit_MaxRequests config \<longrightarrow>
            (\<forall>rnd. GenerateOTP config (env\<lparr>rand_Int := rnd\<rparr>) phoneNumber s = (Inl RateLimited, s)) \<and>
            GenerateOTP_status (fst (GenerateOTP config env phoneNumber s)) = 429) \<and>
         (int (length (filter (\<lambda>r. OTP.PhoneNumber r = phoneNumber \<and>
              OTP.CreatedAt r \<ge> now_since env - GetRateLimitWindow config) (otps s)))
           < RateLimit_MaxRequests config \<and>
          generateRandomCode (rand_Int env) (memory env) (OTP_Length config) = Inr code \<and>
          create_fault env = None \<longrightarrow>
            GenerateOTP config env phoneNumber s =
              (Inr \<lparr>Message = ''OTP sent successfully'', ExpiresIn = OTP_ExpiryMinutes config\<rparr>,
               s\<lparr>otps := otps s @
                     [\<lparr>OTP.PhoneNumber = phoneNumber, OTP.Code = code,
                       OTP.ExpiresAt = now_expires env + int64 (OTP_ExpiryMinutes config * Minute),
                       OTP.CreatedAt = now_created env, OTP.Used = False\<rparr>],
                  console := console s @ [(phoneNumber, code, OTP_ExpiryMinutes config)]\<rparr>))"
proof (intro conjI impI allI)
  note neg = GetRateLimitWindow_negated [OF assms(2)]
  assume lim: "int (length (filter (\<lambda>r. OTP.PhoneNumber r = phoneNumber \<and>
              OTP.CreatedAt r \<ge> now_since env - GetRateLimitWindow config) (otps s)))
           \<ge> RateLimit_MaxRequests config"
  show "GenerateOTP config (env\<lparr>rand_Int := rnd\<rparr>) phoneNumber s = (Inl RateLimited, s)" for rnd
    using assms(1) neg lim by (intro GenerateOTP_limited) simp_all
  from GenerateOTP_limited [OF assms(1) neg lim]
  show "GenerateOTP_status (fst (GenerateOTP config env phoneNumber s)) = 429"
    by (simp add: GenerateOTP_status_def RateLimited_def)
next
  note neg = GetRateLimitWindow_negated [OF assms(2)]
  assume "int (length (filter (\<lambda>r. OTP.PhoneNumber r = phoneNumber \<and>
              OTP.CreatedAt r \<ge> now_since env - GetRateLimitWindow config) (otps s)))
           < RateLimit_MaxRequests config \<and>
          generateRandomCode (rand_Int env) (memory env) (OTP_Length config) = Inr code \<and>
          create_fault env = None"
  with assms(1) neg show "GenerateOTP config env phoneNumber s =
              (Inr \<lparr>Message = ''OTP sent successfully'', ExpiresIn = OTP_ExpiryMinutes config\<rparr>,
               s\<lparr>otps := otps s @
                     [\<lparr>OTP.PhoneNumber = phoneNumber, OTP.Code = code,
                       OTP.ExpiresAt = now_expires env + int64 (OTP_ExpiryMinutes config * Minute),
                       OTP.CreatedAt = now_created env, OTP.Used = False\<rparr>],
                  console := console s @ [(phoneNumber, code, OTP_ExpiryMinutes config)]\<rparr>)"
    by (intro GenerateOTP_created) simp_all
qed

theorem GenerateOTP_rate_limit_witness:
  "GenerateOTP example_config example_generate_env ''+1555000111'' example_state =
     (Inl RateLimited, example_state) \<and>
   GenerateOTP_status (fst (GenerateOTP example_config example_generate_env ''+1555000111'' example_state)) = 429 \<and>
   GenerateOTP example_config example_generate_env ''+1555000222'' example_state =
     (Inr \<lparr>Message = ''OTP sent successfully'', ExpiresIn = 2\<rparr>,
      example_state\<lparr>otps := otps example_state @
            [\<lparr>OTP.PhoneNumber = ''+1555000222'', OTP.Code = ''307418'',
              OTP.ExpiresAt = 620 * Second + 1,
              OTP.CreatedAt = 500 * Second + 2, OTP.Used = False\<rparr>],
         console := [(''+1555000222'', ''307418'', 2)]\<rparr>)"
proof -
  have ok: "count_fault example_generate_env = None"
    by (simp add: example_generate_env_def)
  have fits: "GetRateLimitWindow example_config \<noteq> - (2 ^ 63)"
    by (simp add: example_config_def GetRateLimitWindow_def int64_def Minute_def Second_def)
  have code: "generateRandomCode (rand_Int example_generate_env) (memory example_generate_env)
      (OTP_Length example_config) = Inr ''307418''"
    by code_simp
  have full: "int (length (filter (\<lambda>r. OTP.PhoneNumber r = ''+1555000111'' \<and>
              OTP.CreatedAt r \<ge> now_since example_generate_env - GetRateLimitWindow example_config)
                (otps example_state))) = 3"
    by (simp add: example_state_def example_generate_env_def example_config_def GetRateLimitWindow_def
        int64_def Minute_def Second_def)
  have below: "int (length (filter (\<lambda>r. OTP.PhoneNumber r = ''+1555000222'' \<and>
              OTP.CreatedAt r \<ge> now_since example_generate_env - GetRateLimitWindow example_config)
                (otps example_state))) = 1"
    by (simp add: example_state_def example_generate_env_def example_config_def GetRateLimitWindow_def
        int64_def Minute_def Second_def)
  have max: "RateLimit_MaxRequests example_config = 3" "create_fault example_generate_env = None"
    "OTP_ExpiryMinutes example_config = 2" "console example_state = []"
    "now_expires example_generate_env = 500 * Second + 1"
    "now_created example_generate_env = 500 * Second + 2"
    by (simp_all add: example_config_def example_generate_env_def example_state_def)
  from GenerateOTP_rate_limit [OF ok fits, where phoneNumber = "''+1555000111''" and s = example_state] full max
  have limited: "(\<forall>rnd. GenerateOTP example_config (example_generate_env\<lparr>rand_Int := rnd\<rparr>) ''+1555000111'' example_state =
     (Inl RateLimited, example_state)) \<and>
   GenerateOTP_status (fst (GenerateOTP example_config example_generate_env ''+1555000111'' example_state)) = 429"
    by simp
  then have "GenerateOTP example_config (example_generate_env\<lparr>rand_Int := rand_Int example_generate_env\<rparr>)
      ''+1555000111'' example_state = (Inl RateLimited, example_state)"
    by blast
  with limited have first: "GenerateOTP example_config example_generate_env ''+1555000111'' example_state =
     (Inl RateLimited, example_state) \<and>
   GenerateOTP_status (fst (GenerateOTP example_config example_generate_env ''+1555000111'' example_state)) = 429"
    by simp
  from GenerateOTP_rate_limit [OF ok fits, where phoneNumber = "''+1555000222''" and s = example_state
      and code = "''307418''"] below max code
  have "GenerateOTP example_config example_generate_env ''+1555000222'' example_state =
     (Inr \<lparr>Message = ''OTP sent successfully'', ExpiresIn = 2\<rparr>,
      example_state\<lparr>otps := otps example_state @
            [\<lparr>OTP.PhoneNumber = ''+1555000222'', OTP.Code = ''307418'',
              OTP.ExpiresAt = 620 * Second + 1,
              OTP.CreatedAt = 500 * Second + 2, OTP.Used = False\<rparr>],
         console := [(''+1555000222'', ''307418'', 2)]\<rparr>)"
    by (simp add: Minute_def Second_def int64_def)
  with first show ?thesis by blast
qed

section \<open>Verification\<close>

lemma VerifyOTP_user_otps:
  "otps (snd (VerifyOTP_user config env phoneNumber s)) = otps s"
  by (auto simp: VerifyOTP_user_def User_GetByPhoneNumber_def User_Create_def User_Update_def Let_def
      split: sum.splits option.splits prod.splits)

lemma VerifyOTP_user_console:
  "console (snd (VerifyOTP_user config env phoneNumber s)) = console s"
  by (auto simp: VerifyOTP_user_def User_GetByPhoneNumber_def User_Create_def User_Update_def Let_def
      split: sum.splits option.splits prod.splits)

lemma VerifyOTP_no_challenge:
  assumes "GetByPhoneNumber (get_otp_fault env) (sql_NOW env) (OTPVerification.PhoneNumber v) (otps s) = Inr None"
  shows "VerifyOTP config env v s = (Inl NoActiveChallenge, s)"
  using assms by (simp add: VerifyOTP_def VerifyOTP_checked_def NoActiveChallenge_def)

lemma VerifyOTP_mismatch:
  assumes "GetByPhoneNumber (get_otp_fault env) (sql_NOW env) (OTPVerification.PhoneNumber v) (otps s) = Inr (Some otp)"
    and "OTP.Code otp \<noteq> OTPVerification.Code v"
  shows "VerifyOTP config env v s = (Inl CodeMismatch, s)"
  using assms by (simp add: VerifyOTP_def VerifyOTP_checked_def CodeMismatch_def)

lemma VerifyOTP_expired:
  assumes "GetByPhoneNumber (get_otp_fault env) (sql_NOW env) (OTPVerification.PhoneNumber v) (otps s) = Inr (Some otp)"
    and "OTP.Code otp = OTPVerification.Code v"
    and "\<not> IsValid (now_IsValid env) otp"
  shows "VerifyOTP config env v s = (Inl ChallengeExpired, s)"
  using assms by (simp add: VerifyOTP_def VerifyOTP_checked_def ChallengeExpired_def)

lemma VerifyOTP_mark_failed:
  assumes "GetByPhoneNumber (get_otp_fault env) (sql_NOW env) (OTPVerification.PhoneNumber v) (otps s) = Inr (Some otp)"
    and "OTP.Code otp = OTPVerification.Code v"
    and "IsValid (now_IsValid env) otp"
    and "mark_fault env = Some err"
  shows "VerifyOTP config env v s = (Inl (Errorf ''failed to mark OTP as used: '' err), s)"
  using assms by (cases s) (simp add: VerifyOTP_def VerifyOTP_checked_def MarkAsUsed_def)

lemma VerifyOTP_consumed:
  assumes "GetByPhoneNumber (get_otp_fault env) (sql_NOW env) (OTPVerification.PhoneNumber v) (otps s) = Inr (Some otp)"
    and "OTP.Code otp = OTPVerification.Code v"
    and "IsValid (now_IsValid env) otp"
    and "mark_fault env = None"
  shows "VerifyOTP config env v s =
     VerifyOTP_user config env (OTPVerification.PhoneNumber v)
       (s\<lparr>otps := snd (MarkAsUsed None (OTPVerification.PhoneNumber v) (otps s))\<rparr>)"
  using assms by (simp add: VerifyOTP_def VerifyOTP_checked_def MarkAsUsed_def)

lemma GetByPhoneNumber_fault: "GetByPhoneNumber (Some err) NOW phoneNumber rows = Inl err"
  by (simp add: GetByPhoneNumber_def)

lemma VerifyOTP_success:
  assumes "VerifyOTP config env v s = (Inr resp, s')"
  shows "\<exists>otp. GetByPhoneNumber None (sql_NOW env) (OTPVerification.PhoneNumber v) (otps s) = Inr (Some otp) \<and>
           get_otp_fault env = None \<and>
           OTP.Code otp = OTPVerification.Code v \<and> IsValid (now_IsValid env) otp \<and> mark_fault env = None \<and>
           VerifyOTP_user config env (OTPVerification.PhoneNumber v)
             (s\<lparr>otps := snd (MarkAsUsed None (OTPVerification.PhoneNumber v) (otps s))\<rparr>) = (Inr resp, s')"
proof -
  have no_fault: "get_otp_fault env = None"
    using assms by (cases "get_otp_fault env") (simp_all add: VerifyOTP_def VerifyOTP_checked_def GetByPhoneNumber_fault)
  from GetByPhoneNumber_no_fault_cases [of "sql_NOW env" "OTPVerification.PhoneNumber v" "otps s"]
  consider "GetByPhoneNumber None (sql_NOW env) (OTPVerification.PhoneNumber v) (otps s) = Inr None"
    | otp where "GetByPhoneNumber None (sql_NOW env) (OTPVerification.PhoneNumber v) (otps s) = Inr (Some otp)"
    by blast
  then show ?thesis
  proof cases
    case 1
    with assms no_fault show ?thesis by (simp add: VerifyOTP_def VerifyOTP_checked_def)
  next
    case 2
    with no_fault have got: "GetByPhoneNumber (get_otp_fault env) (sql_NOW env) (OTPVerification.PhoneNumber v) (otps s) = Inr (Some otp)"
      by simp
    from assms have code: "OTP.Code otp = OTPVerification.Code v"
      using VerifyOTP_mismatch [OF got] by (cases "OTP.Code otp = OTPVerification.Code v") auto
    from assms have valid: "IsValid (now_IsValid env) otp"
      using VerifyOTP_expired [OF got code] by (cases "IsValid (now_IsValid env) otp") auto
    from assms have mark: "mark_fault env = None"
      using VerifyOTP_mark_failed [OF got code valid] by (cases "mark_fault env") auto
    from VerifyOTP_consumed [OF got code valid mark] assms 2 no_fault code valid mark
    show ?thesis by simp
  qed
qed

lemma IsValid_iff: "IsValid now otp \<longleftrightarrow> \<not> OTP.Used otp \<and> now \<le> OTP.ExpiresAt otp"
  by (auto simp: IsValid_def IsExpired_def)

text \<open>
  One request alone on the database, when the query for the challenge runs: if the
  table holds no row of the identity that is not consumed and expires after the query's
  \<^verbatim>\<open>NOW()\<close>, \<^verbatim>\<open>VerifyOTP\<close> fails with \<open>NoActiveChallenge\<close>; if the challenge fetched
  has another code than the one submitted it fails with \<open>CodeMismatch\<close>; if the code is
  right and the service's clock is past the expiry at the re-check it fails with
  \<open>ChallengeExpired\<close>; in all three the state is unchanged. A success implies a row of
  the identity with the submitted code, not consumed, whose expiry is after the query's
  \<^verbatim>\<open>NOW()\<close> and not before the service's clock at the re-check.
\<close>

lemma VerifyOTP_checks:
  assumes "get_otp_fault env = None"
  shows "((\<forall>r \<in> set (otps s). \<not> (OTP.PhoneNumber r = OTPVerification.PhoneNumber v \<and> \<not> OTP.Used r \<and>
                OTP.ExpiresAt r > sql_NOW env)) \<longrightarrow>
            VerifyOTP config env v s = (Inl NoActiveChallenge, s)) \<and>
         (\<forall>otp. GetByPhoneNumber None (sql_NOW env) (OTPVerification.PhoneNumber v) (otps s) = Inr (Some otp) \<longrightarrow>
            (OTP.Code otp \<noteq> OTPVerification.Code v \<longrightarrow>
               VerifyOTP config env v s = (Inl CodeMismatch, s)) \<and>
            (OTP.Code otp = OTPVerification.Code v \<and> now_IsValid env > OTP.ExpiresAt otp \<longrightarrow>
               VerifyOTP config env v s = (Inl ChallengeExpired, s))) \<and>
         (\<forall>resp s'. VerifyOTP config env v s = (Inr resp, s') \<longrightarrow>
            (\<exists>otp \<in> set (otps s). OTP.PhoneNumber otp = OTPVerification.PhoneNumber v \<and>
               OTP.Code otp = OTPVerification.Code v \<and> \<not> OTP.Used otp \<and>
               sql_NOW env < OTP.ExpiresAt otp \<and> now_IsValid env \<le> OTP.ExpiresAt otp)) \<and>
         Error NoActiveChallenge = ''invalid or expired OTP'' \<and>
         Error CodeMismatch = ''invalid OTP code'' \<and>
         Error ChallengeExpired = ''OTP has expired''"
proof (intro conjI allI impI)
  assume "\<forall>r \<in> set (otps s). \<not> (OTP.PhoneNumber r = OTPVerification.PhoneNumber v \<and> \<not> OTP.Used r \<and>
                OTP.ExpiresAt r > sql_NOW env)"
  then have "filter (\<lambda>r. OTP.PhoneNumber r = OTPVerification.PhoneNumber v \<and> OTP.Used r = False \<and>
                OTP.ExpiresAt r > sql_NOW env) (otps s) = []"
    by (simp add: filter_empty_conv)
  then have "GetByPhoneNumber None (sql_NOW env) (OTPVerification.PhoneNumber v) (otps s) = Inr None"
    by (simp only: GetByPhoneNumber_None_iff)
  with assms show "VerifyOTP config env v s = (Inl NoActiveChallenge, s)"
    by (intro VerifyOTP_no_challenge) simp
next
  fix otp
  assume got: "GetByPhoneNumber None (sql_NOW env) (OTPVerification.PhoneNumber v) (otps s) = Inr (Some otp)"
    and "OTP.Code otp \<noteq> OTPVerification.Code v"
  with assms show "VerifyOTP config env v s = (Inl CodeMismatch, s)"
    by (intro VerifyOTP_mismatch [where otp = otp]) simp_all
next
  fix otp
  assume got: "GetByPhoneNumber None (sql_NOW env) (OTPVerification.PhoneNumber v) (otps s) = Inr (Some otp)"
    and late: "OTP.Code otp = OTPVerification.Code v \<and> now_IsValid env > OTP.ExpiresAt otp"
  then have "\<not> IsValid (now_IsValid env) otp"
    by (simp add: IsValid_iff)
  with assms got late show "VerifyOTP config env v s = (Inl ChallengeExpired, s)"
    by (intro VerifyOTP_expired [where otp = otp]) simp_all
next
  fix resp s'
  assume "VerifyOTP config env v s = (Inr resp, s')"
  from VerifyOTP_success [OF this] obtain otp
    where got: "GetByPhoneNumber None (sql_NOW env) (OTPVerification.PhoneNumber v) (otps s) = Inr (Some otp)"
      and code: "OTP.Code otp = OTPVerification.Code v" and valid: "IsValid (now_IsValid env) otp"
    by blast
  from GetByPhoneNumber_Some_newest [OF got] code valid
  show "\<exists>otp \<in> set (otps s). OTP.PhoneNumber otp = OTPVerification.PhoneNumber v \<and>
               OTP.Code otp = OTPVerification.Code v \<and> \<not> OTP.Used otp \<and>
               sql_NOW env < OTP.ExpiresAt otp \<and> now_IsValid env \<le> OTP.ExpiresAt otp"
    by (auto simp: IsValid_iff)
qed (simp_all add: NoActiveChallenge_def CodeMismatch_def ChallengeExpired_def)

lemmas service_defs =
  VerifyOTP_def VerifyOTP_checked_def VerifyOTP_user_def GetByPhoneNumber_def IsValid_iff MarkAsUsed_def
  User_GetByPhoneNumber_def User_Create_def User_Update_def NewUser_def UpdateLastLogin_def
  generateJWT_def ToResponse_def SigningMethodHS256_def Let_def Unix_def

lemmas example_defs =
  example_verify_env_def example_SignedString_def example_state_def example_config_def
  GetJWTExpiry_def int64_def Second_def Minute_def Hour_def

lemma example_VerifyOTP_run:
  "VerifyOTP example_config example_verify_env
      \<lparr>OTPVerification.PhoneNumber = ''+1555000111'', OTPVerification.Code = ''333333''\<rparr> example_state =
     (Inr \<lparr>Token = ''HS256.6ba7b810-9dad-11d1-80b4-00c04fd430c8.+1555000111'',
           User = \<lparr>UserResponse.ID = ''6ba7b810-9dad-11d1-80b4-00c04fd430c8'',
                    UserResponse.PhoneNumber = ''+1555000111'',
                    UserResponse.CreatedAt = 500 * Second + 4,
                    UserResponse.LastLoginAt = Some (500 * Second + 5)\<rparr>,
           AuthResponse.ExpiresAt = 500 * Second + 6 + 24 * (60 * Minute)\<rparr>,
      example_state
        \<lparr>otps := snd (MarkAsUsed None ''+1555000111'' (otps example_state)),
         users := users example_state @
           [\<lparr>User.ID = ''6ba7b810-9dad-11d1-80b4-00c04fd430c8'', User.PhoneNumber = ''+1555000111'',
             User.CreatedAt = 500 * Second + 4, User.UpdatedAt = 500 * Second + 5,
             User.LastLoginAt = Some (500 * Second + 5)\<rparr>]\<rparr>)"
  by (simp add: service_defs example_defs)

lemma example_VerifyOTP_checks:
  "VerifyOTP example_config example_verify_env
      \<lparr>OTPVerification.PhoneNumber = ''+1555000333'', OTPVerification.Code = ''333333''\<rparr> example_state =
     (Inl NoActiveChallenge, example_state) \<and>
   VerifyOTP example_config example_verify_env
      \<lparr>OTPVerification.PhoneNumber = ''+1555000111'', OTPVerification.Code = ''000000''\<rparr> example_state =
     (Inl CodeMismatch, example_state) \<and>
   VerifyOTP example_config (example_verify_env\<lparr>now_IsValid := 581 * Second\<rparr>)
      \<lparr>OTPVerification.PhoneNumber = ''+1555000111'', OTPVerification.Code = ''333333''\<rparr> example_state =
     (Inl ChallengeExpired, example_state) \<and>
   fst (VerifyOTP example_config example_verify_env
      \<lparr>OTPVerification.PhoneNumber = ''+1555000111'', OTPVerification.Code = ''333333''\<rparr> example_state) =
     Inr \<lparr>Token = ''HS256.6ba7b810-9dad-11d1-80b4-00c04fd430c8.+1555000111'',
           User = \<lparr>UserResponse.ID = ''6ba7b810-9dad-11d1-80b4-00c04fd430c8'',
                    UserResponse.PhoneNumber = ''+1555000111'',
                    UserResponse.CreatedAt = 500 * Second + 4,
                    UserResponse.LastLoginAt = Some (500 * Second + 5)\<rparr>,
           AuthResponse.ExpiresAt = 500 * Second + 6 + 24 * (60 * Minute)\<rparr>"
proof -
  have ok: "get_otp_fault example_verify_env = None"
    "get_otp_fault (example_verify_env\<lparr>now_IsValid := 581 * Second\<rparr>) = None"
    by (simp_all add: example_verify_env_def)
  have latest: "GetByPhoneNumber None (sql_NOW example_verify_env) ''+1555000111'' (otps example_state) =
     Inr (Some \<lparr>OTP.PhoneNumber = ''+1555000111'', OTP.Code = ''333333'',
          OTP.ExpiresAt = 580 * Second, OTP.CreatedAt = 460 * Second, OTP.Used = False\<rparr>)"
    by (simp add: GetByPhoneNumber_def example_defs)
  have none: "\<forall>r \<in> set (otps example_state). \<not> (OTP.PhoneNumber r = ''+1555000333'' \<and> \<not> OTP.Used r \<and>
                OTP.ExpiresAt r > sql_NOW example_verify_env)"
    by (simp add: example_defs)
  from VerifyOTP_checks [OF ok(1), where s = example_state and config = example_config and
      v = "\<lparr>OTPVerification.PhoneNumber = ''+1555000333'', OTPVerification.Code = ''333333''\<rparr>"] none
  have first: "VerifyOTP example_config example_verify_env
      \<lparr>OTPVerification.PhoneNumber = ''+1555000333'', OTPVerification.Code = ''333333''\<rparr> example_state =
     (Inl NoActiveChallenge, example_state)"
    by simp
  from VerifyOTP_checks [OF ok(1), where s = example_state and config = example_config and
      v = "\<lparr>OTPVerification.PhoneNumber = ''+1555000111'', OTPVerification.Code = ''000000''\<rparr>"] latest
  have second: "VerifyOTP example_config example_verify_env
      \<lparr>OTPVerification.PhoneNumber = ''+1555000111'', OTPVerification.Code = ''000000''\<rparr> example_state =
     (Inl CodeMismatch, example_state)"
    by simp
  from VerifyOTP_checks [OF ok(2), where s = example_state and config = example_config and
      v = "\<lparr>OTPVerification.PhoneNumber = ''+1555000111'', OTPVerification.Code = ''333333''\<rparr>"] latest
  have third: "VerifyOTP example_config (example_verify_env\<lparr>now_IsValid := 581 * Second\<rparr>)
      \<lparr>OTPVerification.PhoneNumber = ''+1555000111'', OTPVerification.Code = ''333333''\<rparr> example_state =
     (Inl ChallengeExpired, example_state)"
    by (simp add: example_verify_env_def Second_def)
  from first second third example_VerifyOTP_run show ?thesis
    by simp
qed

section \<open>Failed verifications and the later steps\<close>

lemma GetByPhoneNumber_later:
  assumes got: "GetByPhoneNumber None t1 phoneNumber rows = Inr (Some otp)"
    and later: "t1 \<le> t2" and valid: "t2 < OTP.ExpiresAt otp"
  shows "GetByPhoneNumber None t2 phoneNumber rows = Inr (Some otp)"
proof -
  let ?P1 = "\<lambda>r. OTP.PhoneNumber r = phoneNumber \<and> OTP.Used r = False \<and> OTP.ExpiresAt r > t1"
  let ?P2 = "\<lambda>r. OTP.PhoneNumber r = phoneNumber \<and> OTP.Used r = False \<and> OTP.ExpiresAt r > t2"
  let ?k = "\<lambda>r. - OTP.CreatedAt r"
  from got obtain rest where srt: "sort_key ?k (filter ?P1 rows) = otp # rest"
    unfolding GetByPhoneNumber_Some_iff by blast
  from GetByPhoneNumber_Some_newest [OF got] valid have here: "?P2 otp"
    by simp
  from later have "filter ?P2 rows = filter ?P2 (filter ?P1 rows)"
    by (auto intro: filter_cong)
  then have "sort_key ?k (filter ?P2 rows) = filter ?P2 (sort_key ?k (filter ?P1 rows))"
    by (simp only: filter_sort)
  with srt here have "sort_key ?k (filter ?P2 rows) = otp # filter ?P2 rest"
    by simp
  then show ?thesis
    unfolding GetByPhoneNumber_Some_iff by blast
qed

lemma VerifyOTP_user_result:
  assumes "get_user_fault env = None"
    and "find (\<lambda>u. User.PhoneNumber u = phoneNumber) (users s) = found"
    and "found = None \<Longrightarrow> create_user_fault env = None"
    and "update_user_fault env = None"
    and "user = UpdateLastLogin (now_UpdateLastLogin env)
           (case found of Some u \<Rightarrow> u | None \<Rightarrow> NewUser (uuid_New env) (now_NewUser env) phoneNumber)"
    and "token_SignedString env SigningMethodHS256
           \<lparr>UserID = User.ID user, Claims.PhoneNumber = User.PhoneNumber user,
            Exp = Unix (now_generateJWT env + GetJWTExpiry config)\<rparr> (JWT_Secret config) = Inr t"
  shows "VerifyOTP_user config env phoneNumber s =
     (Inr \<lparr>Token = t, User = ToResponse user,
           AuthResponse.ExpiresAt = now_generateJWT env + GetJWTExpiry config\<rparr>,
      s\<lparr>users := snd (User_Update None user
           (case found of Some u \<Rightarrow> users s
            | None \<Rightarrow> users s @ [NewUser (uuid_New env) (now_NewUser env) phoneNumber]))\<rparr>)"
proof (cases found)
  case None
  with assms show ?thesis
    by (simp add: VerifyOTP_user_def User_GetByPhoneNumber_def User_Create_def User_Update_def
        generateJWT_def Let_def)
next
  case (Some u)
  with assms show ?thesis
    by (simp add: VerifyOTP_user_def User_GetByPhoneNumber_def User_Update_def generateJWT_def Let_def)
qed

lemma VerifyOTP_user_success:
  assumes "VerifyOTP_user config env phoneNumber s = (Inr resp, s')"
    and "find (\<lambda>u. User.PhoneNumber u = phoneNumber) (users s) = found"
    and "user = UpdateLastLogin (now_UpdateLastLogin env)
           (case found of Some u \<Rightarrow> u | None \<Rightarrow> NewUser (uuid_New env) (now_NewUser env) phoneNumber)"
  shows "s' = s\<lparr>users := snd (User_Update None user
           (case found of Some u \<Rightarrow> users s
            | None \<Rightarrow> users s @ [NewUser (uuid_New env) (now_NewUser env) phoneNumber]))\<rparr> \<and>
         AuthResponse.User resp = ToResponse user \<and>
         AuthResponse.ExpiresAt resp = now_generateJWT env + GetJWTExpiry config \<and>
         token_SignedString env SigningMethodHS256
           \<lparr>UserID = User.ID user, Claims.PhoneNumber = User.PhoneNumber user,
            Exp = Unix (now_generateJWT env + GetJWTExpiry config)\<rparr> (JWT_Secret config) = Inr (Token resp)"
proof (cases found)
  case None
  with assms show ?thesis
    by (auto simp: VerifyOTP_user_def User_GetByPhoneNumber_def User_Create_def User_Update_def
        generateJWT_def Let_def split: option.splits sum.splits prod.splits)
next
  case (Some u)
  with assms show ?thesis
    by (auto simp: VerifyOTP_user_def User_GetByPhoneNumber_def User_Update_def generateJWT_def Let_def
        split: option.splits sum.splits prod.splits)
qed

lemma VerifyOTP_user_get_failed:
  assumes "get_user_fault env = Some e"
  shows "VerifyOTP_user config env phoneNumber s = (Inl (Errorf ''failed to get user: '' e), s)"
  using assms by (simp add: VerifyOTP_user_def User_GetByPhoneNumber_def)

lemma VerifyOTP_user_create_failed:
  assumes "get_user_fault env = None"
    and "find (\<lambda>u. User.PhoneNumber u = phoneNumber) (users s) = None"
    and "create_user_fault env = Some e"
  shows "VerifyOTP_user config env phoneNumber s = (Inl (Errorf ''failed to create user: '' e), s)"
  using assms by (cases s) (simp add: VerifyOTP_user_def User_GetByPhoneNumber_def User_Create_def Let_def)

lemma VerifyOTP_user_update_failed:
  assumes "get_user_fault env = None"
    and "find (\<lambda>u. User.PhoneNumber u = phoneNumber) (users s) = found"
    and "found = None \<Longrightarrow> create_user_fault env = None"
    and "update_user_fault env = Some e"
  shows "VerifyOTP_user config env phoneNumber s =
     (Inl (Errorf ''failed to update user: '' e),
      s\<lparr>users := (case found of Some u \<Rightarrow> users s
            | None \<Rightarrow> users s @ [NewUser (uuid_New env) (now_NewUser env) phoneNumber])\<rparr>)"
proof (cases found)
  case None
  with assms show ?thesis
    by (simp add: VerifyOTP_user_def User_GetByPhoneNumber_def User_Create_def User_Update_def Let_def)
next
  case (Some u)
  with assms show ?thesis
    by (cases s) (simp add: VerifyOTP_user_def User_GetByPhoneNumber_def User_Update_def Let_def)
qed

lemma VerifyOTP_user_sign_failed:
  assumes "get_user_fault env = None"
    and "find (\<lambda>u. User.PhoneNumber u = phoneNumber) (users s) = found"
    and "found = None \<Longrightarrow> create_user_fault env = None"
    and "update_user_fault env = None"
    and "user = UpdateLastLogin (now_UpdateLastLogin env)
           (case found of Some u \<Rightarrow> u | None \<Rightarrow> NewUser (uuid_New env) (now_NewUser env) phoneNumber)"
    and "token_SignedString env SigningMethodHS256
           \<lparr>UserID = User.ID user, Claims.PhoneNumber = User.PhoneNumber user,
            Exp = Unix (now_generateJWT env + GetJWTExpiry config)\<rparr> (JWT_Secret config) = Inl e"
  shows "VerifyOTP_user config env phoneNumber s =
     (Inl (Errorf ''failed to generate token: '' e),
      s\<lparr>users := snd (User_Update None user
           (case found of Some u \<Rightarrow> users s
            | None \<Rightarrow> users s @ [NewUser (uuid_New env) (now_NewUser env) phoneNumber]))\<rparr>)"
proof (cases found)
  case None
  with assms show ?thesis
    by (simp add: VerifyOTP_user_def User_GetByPhoneNumber_def User_Create_def User_Update_def
        generateJWT_def Let_def)
next
  case (Some u)
  with assms show ?thesis
    by (simp add: VerifyOTP_user_def User_GetByPhoneNumber_def User_Update_def generateJWT_def Let_def)
qed

lemma VerifyOTP_user_error:
  assumes "VerifyOTP_user config env phoneNumber s = (Inl err, s')"
  shows "\<exists>e. err = Errorf ''failed to get user: '' e \<or> err = Errorf ''failed to create user: '' e \<or>
             err = Errorf ''failed to update user: '' e \<or> err = Errorf ''failed to generate token: '' e"
proof (cases "get_user_fault env")
  case (Some e)
  from VerifyOTP_user_get_failed [OF Some] assms have "err = Errorf ''failed to get user: '' e"
    by simp
  then show ?thesis by (intro exI [of _ e] disjI1)
next
  case get: None
  define found where "found = find (\<lambda>u. User.PhoneNumber u = phoneNumber) (users s)"
  then have found: "find (\<lambda>u. User.PhoneNumber u = phoneNumber) (users s) = found"
    by simp
  show ?thesis
  proof (cases "found = None \<and> create_user_fault env \<noteq> None")
    case True
    then obtain e where "create_user_fault env = Some e" and "find (\<lambda>u. User.PhoneNumber u = phoneNumber) (users s) = None"
      using found by auto
    from VerifyOTP_user_create_failed [OF get this(2) this(1)] assms
    have "err = Errorf ''failed to create user: '' e"
      by simp
    then show ?thesis by (intro exI [of _ e] disjI2 disjI1)
  next
    case False
    then have create: "found = None \<Longrightarrow> create_user_fault env = None"
      by simp
    show ?thesis
    proof (cases "update_user_fault env")
      case (Some e)
      from VerifyOTP_user_update_failed [OF get found create Some] assms
      have "err = Errorf ''failed to update user: '' e"
        by simp
      then show ?thesis by (intro exI [of _ e] disjI2 disjI1)
    next
      case update: None
      define user where "user = UpdateLastLogin (now_UpdateLastLogin env)
           (case found of Some u \<Rightarrow> u | None \<Rightarrow> NewUser (uuid_New env) (now_NewUser env) phoneNumber)"
      show ?thesis
      proof (cases "token_SignedString env SigningMethodHS256
           \<lparr>UserID = User.ID user, Claims.PhoneNumber = User.PhoneNumber user,
            Exp = Unix (now_generateJWT env + GetJWTExpiry config)\<rparr> (JWT_Secret config)")
        case (Inl e)
        from VerifyOTP_user_sign_failed [OF get found create update user_def Inl] assms
        have "err = Errorf ''failed to generate token: '' e"
          by simp
        then show ?thesis by (intro exI [of _ e] disjI2)
      next
        case (Inr t)
        from VerifyOTP_user_result [OF get found create update user_def Inr] assms
        show ?thesis by simp
      qed
    qed
  qed
qed

lemma VerifyOTP_get_failed:
  assumes "get_otp_fault env = Some err"
  shows "VerifyOTP config env v s = (Inl (Errorf ''failed to get OTP: '' err), s)"
  using assms by (simp add: VerifyOTP_def VerifyOTP_checked_def GetByPhoneNumber_fault)

lemma VerifyOTP_plain_error:
  assumes "VerifyOTP config env v s = (Inl (New msg), s')"
  shows "s' = s"
proof (cases "get_otp_fault env")
  case (Some err)
  from VerifyOTP_get_failed [OF this] assms show ?thesis
    by simp
next
  case no_fault: None
  from GetByPhoneNumber_no_fault_cases [of "sql_NOW env" "OTPVerification.PhoneNumber v" "otps s"]
  consider "GetByPhoneNumber None (sql_NOW env) (OTPVerification.PhoneNumber v) (otps s) = Inr None"
    | otp where "GetByPhoneNumber None (sql_NOW env) (OTPVerification.PhoneNumber v) (otps s) = Inr (Some otp)"
    by blast
  then show ?thesis
  proof cases
    case 1
    with no_fault assms show ?thesis
      by (simp add: VerifyOTP_def VerifyOTP_checked_def)
  next
    case 2
    with no_fault have got: "GetByPhoneNumber (get_otp_fault env) (sql_NOW env) (OTPVerification.PhoneNumber v) (otps s) = Inr (Some otp)"
      by simp
    show ?thesis
    proof (cases "OTP.Code otp = OTPVerification.Code v")
      case False
      from VerifyOTP_mismatch [OF got False] assms show ?thesis by simp
    next
      case code: True
      show ?thesis
      proof (cases "IsValid (now_IsValid env) otp")
        case False
        from VerifyOTP_expired [OF got code False] assms show ?thesis by simp
      next
        case valid: True
        show ?thesis
        proof (cases "mark_fault env")
          case (Some err)
          from VerifyOTP_mark_failed [OF got code valid Some] assms show ?thesis by simp
        next
          case None
          from VerifyOTP_consumed [OF got code valid None] assms
          have "VerifyOTP_user config env (OTPVerification.PhoneNumber v)
             (s\<lparr>otps := snd (MarkAsUsed None (OTPVerification.PhoneNumber v) (otps s))\<rparr>) = (Inl (New msg), s')"
            by simp
          from VerifyOTP_user_error [OF this] show ?thesis by simp
        qed
      qed
    qed
  qed
qed

lemma VerifyOTP_user_succeeds:
  assumes "get_user_fault env = None" and "create_user_fault env = None" and "update_user_fault env = None"
    and sign: "\<forall>claims. \<exists>t. token_SignedString env SigningMethodHS256 claims (JWT_Secret config) = Inr t"
  shows "\<exists>resp s'. VerifyOTP_user config env phoneNumber s = (Inr resp, s')"
proof -
  define found where "found = find (\<lambda>u. User.PhoneNumber u = phoneNumber) (users s)"
  define user where "user = UpdateLastLogin (now_UpdateLastLogin env)
           (case found of Some u \<Rightarrow> u | None \<Rightarrow> NewUser (uuid_New env) (now_NewUser env) phoneNumber)"
  from sign obtain t where "token_SignedString env SigningMethodHS256
           \<lparr>UserID = User.ID user, Claims.PhoneNumber = User.PhoneNumber user,
            Exp = Unix (now_generateJWT env + GetJWTExpiry config)\<rparr> (JWT_Secret config) = Inr t"
    by blast
  from VerifyOTP_user_result [OF assms(1) found_def [symmetric] assms(2) assms(3) user_def this]
  show ?thesis by blast
qed

text \<open>
  C10. When \<^verbatim>\<open>VerifyOTP\<close> fails with \<open>NoActiveChallenge\<close> or \<open>CodeMismatch\<close>, the state
  after the call is the state before it: no challenge consumed, no user created or
  updated, and the result is the error, not a token. And after a mismatch on the
  challenge fetched, a second call that submits the code of that challenge succeeds,
  when its clocks are not before the first query's and still within the expiry of the
  challenge, and no statement and not the signing fails.
\<close>

theorem VerifyOTP_failure_keeps_state:
  "(fst (VerifyOTP config env v s) = Inl NoActiveChallenge \<or>
    fst (VerifyOTP config env v s) = Inl CodeMismatch \<longrightarrow>
      snd (VerifyOTP config env v s) = s) \<and>
   (\<forall>otp env2.
      get_otp_fault env = None \<and>
      GetByPhoneNumber None (sql_NOW env) (OTPVerification.PhoneNumber v) (otps s) = Inr (Some otp) \<and>
      OTP.Code otp \<noteq> OTPVerification.Code v \<and>
      get_otp_fault env2 = None \<and> mark_fault env2 = None \<and> get_user_fault env2 = None \<and>
      create_user_fault env2 = None \<and> update_user_fault env2 = None \<and>
      (\<forall>claims. \<exists>t. token_SignedString env2 SigningMethodHS256 claims (JWT_Secret config) = Inr t) \<and>
      sql_NOW env \<le> sql_NOW env2 \<and> sql_NOW env2 < OTP.ExpiresAt otp \<and>
      now_IsValid env2 \<le> OTP.ExpiresAt otp \<longrightarrow>
        VerifyOTP config env v s = (Inl CodeMismatch, s) \<and>
        (\<exists>resp s''. VerifyOTP config env2 (v\<lparr>OTPVerification.Code := OTP.Code otp\<rparr>)
             (snd (VerifyOTP config env v s)) = (Inr resp, s'')))"
proof (intro conjI allI impI)
  assume "fst (VerifyOTP config env v s) = Inl NoActiveChallenge \<or>
    fst (VerifyOTP config env v s) = Inl CodeMismatch"
  then obtain msg where "fst (VerifyOTP config env v s) = Inl (New msg)"
    by (auto simp: NoActiveChallenge_def CodeMismatch_def)
  then have "VerifyOTP config env v s = (Inl (New msg), snd (VerifyOTP config env v s))"
    by (metis prod.collapse)
  then show "snd (VerifyOTP config env v s) = s"
    by (rule VerifyOTP_plain_error)
next
  fix otp and env2 :: verify_env
  assume a: "get_otp_fault env = None \<and>
      GetByPhoneNumber None (sql_NOW env) (OTPVerification.PhoneNumber v) (otps s) = Inr (Some otp) \<and>
      OTP.Code otp \<noteq> OTPVerification.Code v \<and>
      get_otp_fault env2 = None \<and> mark_fault env2 = None \<and> get_user_fault env2 = None \<and>
      create_user_fault env2 = None \<and> update_user_fault env2 = None \<and>
      (\<forall>claims. \<exists>t. token_SignedString env2 SigningMethodHS256 claims (JWT_Secret config) = Inr t) \<and>
      sql_NOW env \<le> sql_NOW env2 \<and> sql_NOW env2 < OTP.ExpiresAt otp \<and>
      now_IsValid env2 \<le> OTP.ExpiresAt otp"
  then have no_fault: "get_otp_fault env = None"
    and got1: "GetByPhoneNumber None (sql_NOW env) (OTPVerification.PhoneNumber v) (otps s) = Inr (Some otp)"
    and wrong: "OTP.Code otp \<noteq> OTPVerification.Code v"
    and env2: "get_otp_fault env2 = None" "mark_fault env2 = None" "get_user_fault env2 = None"
      "create_user_fault env2 = None" "update_user_fault env2 = None"
    and sign: "\<forall>claims. \<exists>t. token_SignedString env2 SigningMethodHS256 claims (JWT_Secret config) = Inr t"
    and times: "sql_NOW env \<le> sql_NOW env2" "sql_NOW env2 < OTP.ExpiresAt otp" "now_IsValid env2 \<le> OTP.ExpiresAt otp"
    by blast+
  from no_fault got1
  have got: "GetByPhoneNumber (get_otp_fault env) (sql_NOW env) (OTPVerification.PhoneNumber v) (otps s) = Inr (Some otp)"
    by simp
  from VerifyOTP_mismatch [OF got wrong]
  show first: "VerifyOTP config env v s = (Inl CodeMismatch, s)" .
  let ?v2 = "v\<lparr>OTPVerification.Code := OTP.Code otp\<rparr>"
  from GetByPhoneNumber_later [OF got1 times(1) times(2)] env2(1)
  have got2: "GetByPhoneNumber (get_otp_fault env2) (sql_NOW env2) (OTPVerification.PhoneNumber ?v2) (otps s) = Inr (Some otp)"
    by simp
  have code2: "OTP.Code otp = OTPVerification.Code ?v2"
    by simp
  from GetByPhoneNumber_Some_newest [OF got1] times(3)
  have valid2: "IsValid (now_IsValid env2) otp"
    by (simp add: IsValid_iff)
  from VerifyOTP_user_succeeds [OF env2(3) env2(4) env2(5) sign]
  obtain resp s'' where "VerifyOTP_user config env2 (OTPVerification.PhoneNumber ?v2)
       (s\<lparr>otps := snd (MarkAsUsed None (OTPVerification.PhoneNumber ?v2) (otps s))\<rparr>) = (Inr resp, s'')"
    by blast
  with VerifyOTP_consumed [OF got2 code2 valid2 env2(2), of config] first
  show "\<exists>resp s''. VerifyOTP config env2 ?v2 (snd (VerifyOTP config env v s)) = (Inr resp, s'')"
    by simp
qed

theorem VerifyOTP_failure_keeps_state_witness:
  "VerifyOTP example_config example_verify_env
      \<lparr>OTPVerification.PhoneNumber = ''+1555000111'', OTPVerification.Code = ''000000''\<rparr> example_state =
     (Inl CodeMismatch, example_state) \<and>
   (\<exists>resp s''. VerifyOTP example_config
      (example_verify_env\<lparr>sql_NOW := 510 * Second, now_IsValid := 510 * Second + 3\<rparr>)
      \<lparr>OTPVerification.PhoneNumber = ''+1555000111'', OTPVerification.Code = ''333333''\<rparr>
      (snd (VerifyOTP example_config example_verify_env
         \<lparr>OTPVerification.PhoneNumber = ''+1555000111'', OTPVerification.Code = ''000000''\<rparr> example_state)) =
     (Inr resp, s''))"
proof -
  let ?env2 = "example_verify_env\<lparr>sql_NOW := 510 * Second, now_IsValid := 510 * Second + 3\<rparr>"
  let ?v = "\<lparr>OTPVerification.PhoneNumber = ''+1555000111'', OTPVerification.Code = ''000000''\<rparr>"
  let ?otp = "\<lparr>OTP.PhoneNumber = ''+1555000111'', OTP.Code = ''333333'',
          OTP.ExpiresAt = 580 * Second, OTP.CreatedAt = 460 * Second, OTP.Used = False\<rparr>"
  have latest: "GetByPhoneNumber None (sql_NOW example_verify_env) (OTPVerification.PhoneNumber ?v)
      (otps example_state) = Inr (Some ?otp)"
    by (simp add: GetByPhoneNumber_def example_defs)
  have sign: "\<forall>claims. \<exists>t. token_SignedString ?env2 SigningMethodHS256 claims (JWT_Secret example_config) = Inr t"
    by (simp add: example_verify_env_def example_SignedString_def)
  have rest: "get_otp_fault example_verify_env = None" "OTP.Code ?otp \<noteq> OTPVerification.Code ?v"
    "get_otp_fault ?env2 = None" "mark_fault ?env2 = None" "get_user_fault ?env2 = None"
    "create_user_fault ?env2 = None" "update_user_fault ?env2 = None"
    "sql_NOW example_verify_env \<le> sql_NOW ?env2" "sql_NOW ?env2 < OTP.ExpiresAt ?otp"
    "now_IsValid ?env2 \<le> OTP.ExpiresAt ?otp"
    by (simp_all add: example_verify_env_def Second_def)
  from rest latest sign
  have hyp: "get_otp_fault example_verify_env = None \<and>
      GetByPhoneNumber None (sql_NOW example_verify_env) (OTPVerification.PhoneNumber ?v) (otps example_state) = Inr (Some ?otp) \<and>
      OTP.Code ?otp \<noteq> OTPVerification.Code ?v \<and>
      get_otp_fault ?env2 = None \<and> mark_fault ?env2 = None \<and> get_user_fault ?env2 = None \<and>
      create_user_fault ?env2 = None \<and> update_user_fault ?env2 = None \<and>
      (\<forall>claims. \<exists>t. token_SignedString ?env2 SigningMethodHS256 claims (JWT_Secret example_config) = Inr t) \<and>
      sql_NOW example_verify_env \<le> sql_NOW ?env2 \<and> sql_NOW ?env2 < OTP.ExpiresAt ?otp \<and>
      now_IsValid ?env2 \<le> OTP.ExpiresAt ?otp"
    by blast
  from conjunct2 [OF VerifyOTP_failure_keeps_state [where config = example_config and env = example_verify_env
      and v = ?v and s = example_state], rule_format, OF hyp]
  show ?thesis
    by auto
qed

lemma MarkAsUsed_all_used:
  assumes "r \<in> set (snd (MarkAsUsed None phoneNumber rows))" and "OTP.PhoneNumber r = phoneNumber"
  shows "OTP.Used r"
proof -
  from assms(1) obtain x where "x \<in> set rows"
    and r: "r = (if OTP.PhoneNumber x = phoneNumber \<and> OTP.Used x = False then x\<lparr>OTP.Used := True\<rparr> else x)"
    by (auto simp: MarkAsUsed_def)
  show ?thesis
  proof (cases "OTP.PhoneNumber x = phoneNumber \<and> OTP.Used x = False")
    case True
    with r show ?thesis by simp
  next
    case False
    with r have "r = x" by simp
    with False assms(2) show ?thesis by simp
  qed
qed

lemma MarkAsUsed_none_valid:
  "GetByPhoneNumber None t phoneNumber (snd (MarkAsUsed None phoneNumber rows)) = Inr None"
  unfolding GetByPhoneNumber_None_iff filter_empty_conv
  using MarkAsUsed_all_used by blast

lemma MarkAsUsed_marks:
  "otp \<in> set rows \<Longrightarrow> OTP.PhoneNumber otp = phoneNumber \<Longrightarrow> \<not> OTP.Used otp \<Longrightarrow>
   otp\<lparr>OTP.Used := True\<rparr> \<in> set (snd (MarkAsUsed None phoneNumber rows))"
  by (force simp: MarkAsUsed_def)

lemma VerifyOTP_status_user_error:
  assumes "err = Errorf ''failed to get user: '' e \<or> err = Errorf ''failed to create user: '' e \<or>
           err = Errorf ''failed to update user: '' e \<or> err = Errorf ''failed to generate token: '' e"
  shows "VerifyOTP_status (Inl err) = 500"
  using assms by (auto simp: VerifyOTP_status_def)

text \<open>
  C8. In a call of \<^verbatim>\<open>VerifyOTP\<close> that reaches \<^verbatim>\<open>MarkAsUsed\<close> and in which that
  statement succeeds, the challenges of the returned state are the marked ones whatever
  happens next: the challenge fetched is there consumed, and no query finds a valid
  challenge of the identity any more. Every error of such a call is one of the four
  wrapped errors of the later steps, which the handler answers with status 500; and a
  failure of the user lookup, of the user creation, of the user update or of the signing
  gives the error of that step.
\<close>

theorem VerifyOTP_no_rollback:
  assumes got: "GetByPhoneNumber (get_otp_fault env) (sql_NOW env) (OTPVerification.PhoneNumber v) (otps s) = Inr (Some otp)"
    and code: "OTP.Code otp = OTPVerification.Code v"
    and valid: "IsValid (now_IsValid env) otp"
    and mark: "mark_fault env = None"
  shows "otps (snd (VerifyOTP config env v s)) = snd (MarkAsUsed None (OTPVerification.PhoneNumber v) (otps s)) \<and>
         otp\<lparr>OTP.Used := True\<rparr> \<in> set (otps (snd (VerifyOTP config env v s))) \<and>
         (\<forall>t. GetByPhoneNumber None t (OTPVerification.PhoneNumber v) (otps (snd (VerifyOTP config env v s))) = Inr None) \<and>
         (\<forall>err. fst (VerifyOTP config env v s) = Inl err \<longrightarrow>
            VerifyOTP_status (Inl err) = 500 \<and>
            (\<exists>e. err = Errorf ''failed to get user: '' e \<or> err = Errorf ''failed to create user: '' e \<or>
                 err = Errorf ''failed to update user: '' e \<or> err = Errorf ''failed to generate token: '' e)) \<and>
         (\<forall>e. get_user_fault env = Some e \<longrightarrow>
            fst (VerifyOTP config env v s) = Inl (Errorf ''failed to get user: '' e)) \<and>
         (\<forall>e. get_user_fault env = None \<and>
              find (\<lambda>u. User.PhoneNumber u = OTPVerification.PhoneNumber v) (users s) = None \<and>
              create_user_fault env = Some e \<longrightarrow>
            fst (VerifyOTP config env v s) = Inl (Errorf ''failed to create user: '' e)) \<and>
         (\<forall>e. get_user_fault env = None \<and>
              (find (\<lambda>u. User.PhoneNumber u = OTPVerification.PhoneNumber v) (users s) = None \<longrightarrow>
                 create_user_fault env = None) \<and>
              update_user_fault env = Some e \<longrightarrow>
            fst (VerifyOTP config env v s) = Inl (Errorf ''failed to update user: '' e)) \<and>
         (\<forall>e. get_user_fault env = None \<and>
              (find (\<lambda>u. User.PhoneNumber u = OTPVerification.PhoneNumber v) (users s) = None \<longrightarrow>
                 create_user_fault env = None) \<and>
              update_user_fault env = None \<and>
              (\<forall>claims. token_SignedString env SigningMethodHS256 claims (JWT_Secret config) = Inl e) \<longrightarrow>
            fst (VerifyOTP config env v s) = Inl (Errorf ''failed to generate token: '' e))"
proof -
  let ?p = "OTPVerification.PhoneNumber v"
  let ?s1 = "s\<lparr>otps := snd (MarkAsUsed None ?p (otps s))\<rparr>"
  have run: "VerifyOTP config env v s = VerifyOTP_user config env ?p ?s1"
    by (rule VerifyOTP_consumed [OF got code valid mark])
  have users: "users ?s1 = users s"
    by simp
  have rows: "otps (snd (VerifyOTP config env v s)) = snd (MarkAsUsed None ?p (otps s))"
    by (simp add: run VerifyOTP_user_otps)
  from got have no_fault: "get_otp_fault env = None"
    by (cases "get_otp_fault env") (simp_all add: GetByPhoneNumber_fault)
  with got have "GetByPhoneNumber None (sql_NOW env) ?p (otps s) = Inr (Some otp)"
    by simp
  from GetByPhoneNumber_Some_newest [OF this]
  have "otp \<in> set (otps s)" "OTP.PhoneNumber otp = ?p" "\<not> OTP.Used otp"
    by simp_all
  then have marked: "otp\<lparr>OTP.Used := True\<rparr> \<in> set (otps (snd (VerifyOTP config env v s)))"
    unfolding rows by (rule MarkAsUsed_marks)
  have gone: "\<forall>t. GetByPhoneNumber None t ?p (otps (snd (VerifyOTP config env v s))) = Inr None"
    unfolding rows by (simp add: MarkAsUsed_none_valid)
  have errors: "\<forall>err. fst (VerifyOTP config env v s) = Inl err \<longrightarrow>
            VerifyOTP_status (Inl err) = 500 \<and>
            (\<exists>e. err = Errorf ''failed to get user: '' e \<or> err = Errorf ''failed to create user: '' e \<or>
                 err = Errorf ''failed to update user: '' e \<or> err = Errorf ''failed to generate token: '' e)"
  proof (intro allI impI)
    fix err assume "fst (VerifyOTP config env v s) = Inl err"
    then have "VerifyOTP_user config env ?p ?s1 = (Inl err, snd (VerifyOTP_user config env ?p ?s1))"
      unfolding run by (cases "VerifyOTP_user config env ?p ?s1") simp
    from VerifyOTP_user_error [OF this] obtain e
      where e: "err = Errorf ''failed to get user: '' e \<or> err = Errorf ''failed to create user: '' e \<or>
                 err = Errorf ''failed to update user: '' e \<or> err = Errorf ''failed to generate token: '' e"
      ..
    from VerifyOTP_status_user_error [OF e] e
    show "VerifyOTP_status (Inl err) = 500 \<and>
            (\<exists>e. err = Errorf ''failed to get user: '' e \<or> err = Errorf ''failed to create user: '' e \<or>
                 err = Errorf ''failed to update user: '' e \<or> err = Errorf ''failed to generate token: '' e)"
      by (intro conjI exI [of _ e])
  qed
  have get: "\<forall>e. get_user_fault env = Some e \<longrightarrow>
            fst (VerifyOTP config env v s) = Inl (Errorf ''failed to get user: '' e)"
    by (simp add: run VerifyOTP_user_get_failed)
  have create: "\<forall>e. get_user_fault env = None \<and>
              find (\<lambda>u. User.PhoneNumber u = ?p) (users s) = None \<and>
              create_user_fault env = Some e \<longrightarrow>
            fst (VerifyOTP config env v s) = Inl (Errorf ''failed to create user: '' e)"
  proof (intro allI impI, elim conjE)
    fix e assume "get_user_fault env = None" "find (\<lambda>u. User.PhoneNumber u = ?p) (users s) = None"
      "create_user_fault env = Some e"
    with users have "VerifyOTP_user config env ?p ?s1 = (Inl (Errorf ''failed to create user: '' e), ?s1)"
      by (intro VerifyOTP_user_create_failed) simp_all
    then show "fst (VerifyOTP config env v s) = Inl (Errorf ''failed to create user: '' e)"
      by (simp add: run)
  qed
  have update: "\<forall>e. get_user_fault env = None \<and>
              (find (\<lambda>u. User.PhoneNumber u = ?p) (users s) = None \<longrightarrow> create_user_fault env = None) \<and>
              update_user_fault env = Some e \<longrightarrow>
            fst (VerifyOTP config env v s) = Inl (Errorf ''failed to update user: '' e)"
  proof (intro allI impI, elim conjE)
    fix e assume a: "get_user_fault env = None"
      "find (\<lambda>u. User.PhoneNumber u = ?p) (users s) = None \<longrightarrow> create_user_fault env = None"
      "update_user_fault env = Some e"
    have "find (\<lambda>u. User.PhoneNumber u = ?p) (users ?s1) = find (\<lambda>u. User.PhoneNumber u = ?p) (users s)"
      by simp
    from VerifyOTP_user_update_failed [OF a(1) this _ a(3), of config] a(2)
    show "fst (VerifyOTP config env v s) = Inl (Errorf ''failed to update user: '' e)"
      by (simp add: run)
  qed
  have mint: "\<forall>e. get_user_fault env = None \<and>
              (find (\<lambda>u. User.PhoneNumber u = ?p) (users s) = None \<longrightarrow> create_user_fault env = None) \<and>
              update_user_fault env = None \<and>
              (\<forall>claims. token_SignedString env SigningMethodHS256 claims (JWT_Secret config) = Inl e) \<longrightarrow>
            fst (VerifyOTP config env v s) = Inl (Errorf ''failed to generate token: '' e)"
  proof (intro allI impI, elim conjE)
    fix e assume a: "get_user_fault env = None"
      "find (\<lambda>u. User.PhoneNumber u = ?p) (users s) = None \<longrightarrow> create_user_fault env = None"
      "update_user_fault env = None"
      "\<forall>claims. token_SignedString env SigningMethodHS256 claims (JWT_Secret config) = Inl e"
    have found: "find (\<lambda>u. User.PhoneNumber u = ?p) (users ?s1) = find (\<lambda>u. User.PhoneNumber u = ?p) (users s)"
      by simp
    from a(4) have sign: "token_SignedString env SigningMethodHS256 claims (JWT_Secret config) = Inl e" for claims
      by blast
    from VerifyOTP_user_sign_failed [OF a(1) found _ a(3) refl sign] a(2)
    show "fst (VerifyOTP config env v s) = Inl (Errorf ''failed to generate token: '' e)"
      by (simp add: run)
  qed
  from rows marked gone errors get create update mint show ?thesis
    by (intro conjI)
qed

theorem VerifyOTP_no_rollback_witness:
  "fst (VerifyOTP example_config (example_verify_env\<lparr>update_user_fault := Some (New ''connection refused'')\<rparr>)
      \<lparr>OTPVerification.PhoneNumber = ''+1555000111'', OTPVerification.Code = ''333333''\<rparr> example_state) =
     Inl (Errorf ''failed to update user: '' (New ''connection refused'')) \<and>
   VerifyOTP_status (Inl (Errorf ''failed to update user: '' (New ''connection refused''))) = 500 \<and>
   otps (snd (VerifyOTP example_config (example_verify_env\<lparr>update_user_fault := Some (New ''connection refused'')\<rparr>)
      \<lparr>OTPVerification.PhoneNumber = ''+1555000111'', OTPVerification.Code = ''333333''\<rparr> example_state)) =
     [\<lparr>OTP.PhoneNumber = ''+1555000111'', OTP.Code = ''111111'',
       OTP.ExpiresAt = 220 * Second, OTP.CreatedAt = 100 * Second, OTP.Used = True\<rparr>,
      \<lparr>OTP.PhoneNumber = ''+1555000111'', OTP.Code = ''222222'',
       OTP.ExpiresAt = 420 * Second, OTP.CreatedAt = 300 * Second, OTP.Used = True\<rparr>,
      \<lparr>OTP.PhoneNumber = ''+1555000111'', OTP.Code = ''333333'',
       OTP.ExpiresAt = 580 * Second, OTP.CreatedAt = 460 * Second, OTP.Used = True\<rparr>,
      \<lparr>OTP.PhoneNumber = ''+1555000222'', OTP.Code = ''444444'',
       OTP.ExpiresAt = 590 * Second, OTP.CreatedAt = 470 * Second, OTP.Used = False\<rparr>] \<and>
   GetByPhoneNumber None (501 * Second) ''+1555000111''
     (otps (snd (VerifyOTP example_config (example_verify_env\<lparr>update_user_fault := Some (New ''connection refused'')\<rparr>)
      \<lparr>OTPVerification.PhoneNumber = ''+1555000111'', OTPVerification.Code = ''333333''\<rparr> example_state))) =
     Inr None"
proof -
  let ?env = "example_verify_env\<lparr>update_user_fault := Some (New ''connection refused'')\<rparr>"
  let ?v = "\<lparr>OTPVerification.PhoneNumber = ''+1555000111'', OTPVerification.Code = ''333333''\<rparr>"
  let ?otp = "\<lparr>OTP.PhoneNumber = ''+1555000111'', OTP.Code = ''333333'',
          OTP.ExpiresAt = 580 * Second, OTP.CreatedAt = 460 * Second, OTP.Used = False\<rparr>"
  have got: "GetByPhoneNumber (get_otp_fault ?env) (sql_NOW ?env) (OTPVerification.PhoneNumber ?v)
      (otps example_state) = Inr (Some ?otp)"
    by (simp add: GetByPhoneNumber_def example_defs)
  have code: "OTP.Code ?otp = OTPVerification.Code ?v"
    by simp
  have valid: "IsValid (now_IsValid ?env) ?otp"
    by (simp add: IsValid_iff example_verify_env_def Second_def)
  have mark: "mark_fault ?env = None"
    by (simp add: example_verify_env_def)
  have faults: "get_user_fault ?env = None \<and>
      (find (\<lambda>u. User.PhoneNumber u = OTPVerification.PhoneNumber ?v) (users example_state) = None \<longrightarrow>
         create_user_fault ?env = None) \<and>
      update_user_fault ?env = Some (New ''connection refused'')"
    by (simp add: example_verify_env_def)
  note inst = VerifyOTP_no_rollback [OF got code valid mark, of example_config]
  note rows = inst [THEN conjunct1]
  note gone = inst [THEN conjunct2, THEN conjunct2, THEN conjunct1, rule_format, of "501 * Second"]
  note failed = inst [THEN conjunct2, THEN conjunct2, THEN conjunct2, THEN conjunct2, THEN conjunct2,
      THEN conjunct2, THEN conjunct1, rule_format, OF faults]
  note status = inst [THEN conjunct2, THEN conjunct2, THEN conjunct2, THEN conjunct1, rule_format,
      OF failed, THEN conjunct1]
  from rows have rows': "otps (snd (VerifyOTP example_config ?env ?v example_state)) =
     [\<lparr>OTP.PhoneNumber = ''+1555000111'', OTP.Code = ''111111'',
       OTP.ExpiresAt = 220 * Second, OTP.CreatedAt = 100 * Second, OTP.Used = True\<rparr>,
      \<lparr>OTP.PhoneNumber = ''+1555000111'', OTP.Code = ''222222'',
       OTP.ExpiresAt = 420 * Second, OTP.CreatedAt = 300 * Second, OTP.Used = True\<rparr>,
      \<lparr>OTP.PhoneNumber = ''+1555000111'', OTP.Code = ''333333'',
       OTP.ExpiresAt = 580 * Second, OTP.CreatedAt = 460 * Second, OTP.Used = True\<rparr>,
      \<lparr>OTP.PhoneNumber = ''+1555000222'', OTP.Code = ''444444'',
       OTP.ExpiresAt = 590 * Second, OTP.CreatedAt = 470 * Second, OTP.Used = False\<rparr>]"
    by (simp add: MarkAsUsed_def example_state_def)
  from failed status rows' gone show ?thesis
    by simp
qed

section \<open>Register or log in\<close>

lemma find_append_None:
  "find P xs = None \<Longrightarrow> find P (xs @ ys) = find P ys"
  by (induction xs) (auto split: if_splits)

lemma find_Some_holds:
  "find P xs = Some x \<Longrightarrow> P x \<and> x \<in> set xs"
  by (induction xs) (auto split: if_splits)

lemma find_updated:
  assumes "find (\<lambda>u. User.PhoneNumber u = p) xs = Some u" and "User.ID u = k"
  shows "\<exists>u'. find (\<lambda>u. User.PhoneNumber u = p)
            (map (\<lambda>x. if User.ID x = k
                       then x\<lparr>User.PhoneNumber := p, User.UpdatedAt := t, User.LastLoginAt := l\<rparr>
                       else x) xs) = Some u' \<and>
          User.UpdatedAt u' = t \<and> User.LastLoginAt u' = l"
  using assms
proof (induction xs)
  case Nil
  then show ?case by simp
next
  case (Cons x xs)
  show ?case
  proof (cases "User.ID x = k")
    case True
    then show ?thesis by simp
  next
    case False
    with Cons.prems have "User.PhoneNumber x \<noteq> p" and "find (\<lambda>u. User.PhoneNumber u = p) xs = Some u"
      by (auto split: if_splits)
    with False Cons.IH Cons.prems(2) show ?thesis by simp
  qed
qed

text \<open>
  C4. After a successful \<^verbatim>\<open>VerifyOTP\<close>: if no user had the phone number, the table
  of users is one row longer, and with an id not yet in the table it is the old table
  followed by the new
  user (that id, the phone number, created at the clock of \<^verbatim>\<open>NewUser\<close>, updated and
  last logged in at the clock of \<^verbatim>\<open>UpdateLastLogin\<close>); if a user had the phone
  number, the table has as many rows as before and is the old one with that user's row
  overwritten. In both cases the lookup by phone number then finds a user whose last
  login and last update are the clock of \<^verbatim>\<open>UpdateLastLogin\<close>, and the response carries
  that user.
\<close>

theorem VerifyOTP_upsert:
  assumes "VerifyOTP config env v s = (Inr resp, s')"
  shows "(find (\<lambda>u. User.PhoneNumber u = OTPVerification.PhoneNumber v) (users s) = None \<longrightarrow>
            length (users s') = length (users s) + 1 \<and>
            ((\<forall>u \<in> set (users s). User.ID u \<noteq> uuid_New env) \<longrightarrow>
               users s' = users s @
                 [\<lparr>User.ID = uuid_New env, User.PhoneNumber = OTPVerification.PhoneNumber v,
                   User.CreatedAt = now_NewUser env, User.UpdatedAt = now_UpdateLastLogin env,
                   User.LastLoginAt = Some (now_UpdateLastLogin env)\<rparr>])) \<and>
         (\<forall>u. find (\<lambda>u. User.PhoneNumber u = OTPVerification.PhoneNumber v) (users s) = Some u \<longrightarrow>
            length (users s') = length (users s) \<and>
            users s' = map (\<lambda>x. if User.ID x = User.ID u
                                then x\<lparr>User.PhoneNumber := OTPVerification.PhoneNumber v,
                                       User.UpdatedAt := now_UpdateLastLogin env,
                                       User.LastLoginAt := Some (now_UpdateLastLogin env)\<rparr>
                                else x) (users s)) \<and>
         (\<exists>u'. find (\<lambda>u. User.PhoneNumber u = OTPVerification.PhoneNumber v) (users s') = Some u' \<and>
              User.UpdatedAt u' = now_UpdateLastLogin env \<and>
              User.LastLoginAt u' = Some (now_UpdateLastLogin env)) \<and>
         UserResponse.PhoneNumber (AuthResponse.User resp) = OTPVerification.PhoneNumber v \<and>
         UserResponse.LastLoginAt (AuthResponse.User resp) = Some (now_UpdateLastLogin env)"
proof -
  let ?p = "OTPVerification.PhoneNumber v"
  let ?s1 = "s\<lparr>otps := snd (MarkAsUsed None ?p (otps s))\<rparr>"
  let ?new = "NewUser (uuid_New env) (now_NewUser env) ?p"
  let ?t = "now_UpdateLastLogin env"
  define found where "found = find (\<lambda>u. User.PhoneNumber u = ?p) (users s)"
  define user where "user = UpdateLastLogin ?t (case found of Some u \<Rightarrow> u | None \<Rightarrow> ?new)"
  define rows where "rows = (case found of Some u \<Rightarrow> users s | None \<Rightarrow> users s @ [?new])"
  let ?g = "\<lambda>x. if User.ID x = User.ID user
                 then x\<lparr>User.PhoneNumber := ?p, User.UpdatedAt := ?t, User.LastLoginAt := Some ?t\<rparr>
                 else x"
  from VerifyOTP_success [OF assms]
  have run: "VerifyOTP_user config env ?p ?s1 = (Inr resp, s')"
    by blast
  have found1: "find (\<lambda>u. User.PhoneNumber u = ?p) (users ?s1) = found"
    by (simp add: found_def)
  have phone: "User.PhoneNumber user = ?p"
  proof (cases found)
    case None
    then show ?thesis by (simp add: user_def UpdateLastLogin_def NewUser_def)
  next
    case (Some u)
    with find_Some_holds [of "\<lambda>u. User.PhoneNumber u = ?p" "users s" u] show ?thesis
      by (simp add: user_def UpdateLastLogin_def found_def)
  qed
  have fields: "User.UpdatedAt user = ?t" "User.LastLoginAt user = Some ?t"
    by (simp_all add: user_def UpdateLastLogin_def)
  from VerifyOTP_user_success [OF run found1 user_def]
  have s': "users s' = snd (User_Update None user rows)" and resp: "AuthResponse.User resp = ToResponse user"
    by (simp_all add: rows_def split: option.splits)
  from s' phone fields have mapped: "users s' = map ?g rows"
    by (simp add: User_Update_def)
  have new: "found = None \<longrightarrow>
            length (users s') = length (users s) + 1 \<and>
            ((\<forall>u \<in> set (users s). User.ID u \<noteq> uuid_New env) \<longrightarrow>
               users s' = users s @
                 [\<lparr>User.ID = uuid_New env, User.PhoneNumber = ?p,
                   User.CreatedAt = now_NewUser env, User.UpdatedAt = ?t,
                   User.LastLoginAt = Some ?t\<rparr>])"
  proof (intro impI conjI)
    assume none: "found = None"
    with mapped show "length (users s') = length (users s) + 1"
      by (simp add: rows_def)
    assume fresh: "\<forall>u \<in> set (users s). User.ID u \<noteq> uuid_New env"
    from none have id: "User.ID user = uuid_New env"
      by (simp add: user_def UpdateLastLogin_def NewUser_def)
    with fresh have "map ?g (users s) = users s"
      by (simp add: map_idI)
    with none id mapped show "users s' = users s @
                 [\<lparr>User.ID = uuid_New env, User.PhoneNumber = ?p,
                   User.CreatedAt = now_NewUser env, User.UpdatedAt = ?t,
                   User.LastLoginAt = Some ?t\<rparr>]"
      by (simp add: rows_def NewUser_def)
  qed
  have existing: "\<forall>u. found = Some u \<longrightarrow>
            length (users s') = length (users s) \<and>
            users s' = map (\<lambda>x. if User.ID x = User.ID u
                                then x\<lparr>User.PhoneNumber := ?p, User.UpdatedAt := ?t,
                                       User.LastLoginAt := Some ?t\<rparr>
                                else x) (users s)"
  proof (intro allI impI)
    fix u assume some: "found = Some u"
    then have "User.ID user = User.ID u"
      by (simp add: user_def UpdateLastLogin_def)
    with some mapped show "length (users s') = length (users s) \<and>
            users s' = map (\<lambda>x. if User.ID x = User.ID u
                                then x\<lparr>User.PhoneNumber := ?p, User.UpdatedAt := ?t,
                                       User.LastLoginAt := Some ?t\<rparr>
                                else x) (users s)"
      by (simp add: rows_def)
  qed
  have "\<exists>u. find (\<lambda>u. User.PhoneNumber u = ?p) rows = Some u \<and> User.ID u = User.ID user"
  proof (cases found)
    case None
    then have "find (\<lambda>u. User.PhoneNumber u = ?p) rows = Some ?new"
      by (simp add: rows_def found_def find_append_None NewUser_def)
    with None show ?thesis
      by (simp add: user_def UpdateLastLogin_def)
  next
    case (Some u)
    then show ?thesis
      by (simp add: rows_def found_def user_def UpdateLastLogin_def)
  qed
  then obtain u where "find (\<lambda>u. User.PhoneNumber u = ?p) rows = Some u" "User.ID u = User.ID user"
    by blast
  from find_updated [OF this, where t = ?t and l = "Some ?t"] mapped
  have persisted: "\<exists>u'. find (\<lambda>u. User.PhoneNumber u = ?p) (users s') = Some u' \<and>
              User.UpdatedAt u' = ?t \<and> User.LastLoginAt u' = Some ?t"
    by simp
  from resp phone fields have answer: "UserResponse.PhoneNumber (AuthResponse.User resp) = ?p"
    "UserResponse.LastLoginAt (AuthResponse.User resp) = Some ?t"
    by (simp_all add: ToResponse_def)
  from new existing persisted answer show ?thesis
    unfolding found_def by (intro conjI)
qed

lemma example_VerifyOTP_login:
  "VerifyOTP example_config example_verify_env
      \<lparr>OTPVerification.PhoneNumber = ''+1555000222'', OTPVerification.Code = ''444444''\<rparr> example_state =
     (Inr \<lparr>Token = ''HS256.550e8400-e29b-41d4-a716-446655440000.+1555000222'',
           User = \<lparr>UserResponse.ID = ''550e8400-e29b-41d4-a716-446655440000'',
                    UserResponse.PhoneNumber = ''+1555000222'',
                    UserResponse.CreatedAt = 50 * Second,
                    UserResponse.LastLoginAt = Some (500 * Second + 5)\<rparr>,
           AuthResponse.ExpiresAt = 500 * Second + 6 + 24 * (60 * Minute)\<rparr>,
      example_state
        \<lparr>otps := snd (MarkAsUsed None ''+1555000222'' (otps example_state)),
         users :=
           [\<lparr>User.ID = ''550e8400-e29b-41d4-a716-446655440000'', User.PhoneNumber = ''+1555000222'',
             User.CreatedAt = 50 * Second, User.UpdatedAt = 500 * Second + 5,
             User.LastLoginAt = Some (500 * Second + 5)\<rparr>]\<rparr>)"
  by (simp add: service_defs example_defs)

theorem VerifyOTP_upsert_witness:
  "users (snd (VerifyOTP example_config example_verify_env
      \<lparr>OTPVerification.PhoneNumber = ''+1555000111'', OTPVerification.Code = ''333333''\<rparr> example_state)) =
     users example_state @
       [\<lparr>User.ID = ''6ba7b810-9dad-11d1-80b4-00c04fd430c8'', User.PhoneNumber = ''+1555000111'',
         User.CreatedAt = 500 * Second + 4, User.UpdatedAt = 500 * Second + 5,
         User.LastLoginAt = Some (500 * Second + 5)\<rparr>] \<and>
   length (users (snd (VerifyOTP example_config example_verify_env
      \<lparr>OTPVerification.PhoneNumber = ''+1555000222'', OTPVerification.Code = ''444444''\<rparr> example_state))) =
     length (users example_state) \<and>
   users (snd (VerifyOTP example_config example_verify_env
      \<lparr>OTPVerification.PhoneNumber = ''+1555000222'', OTPVerification.Code = ''444444''\<rparr> example_state)) =
     [\<lparr>User.ID = ''550e8400-e29b-41d4-a716-446655440000'', User.PhoneNumber = ''+1555000222'',
       User.CreatedAt = 50 * Second, User.UpdatedAt = 500 * Second + 5,
       User.LastLoginAt = Some (500 * Second + 5)\<rparr>]"
proof -
  let ?v1 = "\<lparr>OTPVerification.PhoneNumber = ''+1555000111'', OTPVerification.Code = ''333333''\<rparr>"
  let ?v2 = "\<lparr>OTPVerification.PhoneNumber = ''+1555000222'', OTPVerification.Code = ''444444''\<rparr>"
  have unknown: "find (\<lambda>u. User.PhoneNumber u = OTPVerification.PhoneNumber ?v1) (users example_state) = None"
    and fresh: "\<forall>u \<in> set (users example_state). User.ID u \<noteq> uuid_New example_verify_env"
    and known: "find (\<lambda>u. User.PhoneNumber u = OTPVerification.PhoneNumber ?v2) (users example_state) =
      Some \<lparr>User.ID = ''550e8400-e29b-41d4-a716-446655440000'', User.PhoneNumber = ''+1555000222'',
          User.CreatedAt = 50 * Second, User.UpdatedAt = 50 * Second,
          User.LastLoginAt = Some (50 * Second)\<rparr>"
    by (simp_all add: example_state_def example_verify_env_def)
  have env: "uuid_New example_verify_env = ''6ba7b810-9dad-11d1-80b4-00c04fd430c8''"
    "now_NewUser example_verify_env = 500 * Second + 4"
    "now_UpdateLastLogin example_verify_env = 500 * Second + 5"
    by (simp_all add: example_verify_env_def)
  have table: "users example_state =
      [\<lparr>User.ID = ''550e8400-e29b-41d4-a716-446655440000'', User.PhoneNumber = ''+1555000222'',
        User.CreatedAt = 50 * Second, User.UpdatedAt = 50 * Second,
        User.LastLoginAt = Some (50 * Second)\<rparr>]"
    by (simp add: example_state_def)
  note registered = VerifyOTP_upsert [OF example_VerifyOTP_run, THEN conjunct1, THEN mp, OF unknown,
      THEN conjunct2, THEN mp, OF fresh]
  note logged_in = VerifyOTP_upsert [OF example_VerifyOTP_login, THEN conjunct2, THEN conjunct1, rule_format,
      OF known]
  from registered have first: "users (snd (VerifyOTP example_config example_verify_env ?v1 example_state)) =
     users example_state @
       [\<lparr>User.ID = ''6ba7b810-9dad-11d1-80b4-00c04fd430c8'', User.PhoneNumber = ''+1555000111'',
         User.CreatedAt = 500 * Second + 4, User.UpdatedAt = 500 * Second + 5,
         User.LastLoginAt = Some (500 * Second + 5)\<rparr>]"
    by (simp add: example_VerifyOTP_run env)
  from logged_in have second: "length (users (snd (VerifyOTP example_config example_verify_env ?v2 example_state))) =
     length (users example_state)"
    "users (snd (VerifyOTP example_config example_verify_env ?v2 example_state)) =
     [\<lparr>User.ID = ''550e8400-e29b-41d4-a716-446655440000'', User.PhoneNumber = ''+1555000222'',
       User.CreatedAt = 50 * Second, User.UpdatedAt = 500 * Second + 5,
       User.LastLoginAt = Some (500 * Second + 5)\<rparr>]"
    by (simp_all add: example_VerifyOTP_login env table)
  from first second show ?thesis
    by (intro conjI)
qed

section \<open>Validating a token\<close>

text \<open>
  C6, as stated, fails: the key function accepts every method of type
  \<^verbatim>\<open>*jwt.SigningMethodHMAC\<close>, and HS384 is one. A token that the library decodes with
  method HS384 and whose signature verifies under the secret is validated; its
  algorithm is not the HS256 that \<^verbatim>\<open>generateJWT\<close> signs with.
\<close>

theorem ValidateToken_HS384_counterexample:
  "ValidateToken example_config example_jwt_library (1000 * Second) ''hs384-token'' = Inr example_claims \<and>
   ParseUnverified example_jwt_library ''hs384-token'' =
     Inr \<lparr>Method = SigningMethodHMAC ''HS384'', Claims = example_claims, Valid = False\<rparr> \<and>
   SigningMethodHMAC ''HS384'' \<noteq> SigningMethodHS256 \<and>
   Alg (SigningMethodHMAC ''HS384'') \<noteq> Alg SigningMethodHS256"
  by (simp add: ValidateToken_def ParseWithClaims_def keyFunc_def GetExpirationTime_def
      example_jwt_library_def example_claims_def example_config_def SigningMethodHS256_def Second_def)

lemma keyFunc_HMAC: "keyFunc config token = Inr key \<longleftrightarrow>
    (\<exists>name. Method token = SigningMethodHMAC name) \<and> key = JWT_Secret config"
  by (cases "Method token") (auto simp: keyFunc_def)

lemma keyFunc_cases:
  "(\<exists>name. Method token = SigningMethodHMAC name) \<and> keyFunc config token = Inr (JWT_Secret config) \<or>
   (\<forall>name. Method token \<noteq> SigningMethodHMAC name) \<and> (\<exists>err. keyFunc config token = Inl err)"
  by (cases "Method token") (simp_all add: keyFunc_def)

text \<open>
  C6, amended. \<^verbatim>\<open>ValidateToken\<close> fails, with an error wrapped as
  \<^verbatim>\<open>invalid token\<close>, when the token string does not decode, when the method of the
  decoded token is not an HMAC method (HS256, HS384, HS512), when the signature does not
  verify under the method and the configured secret, and when the clock is not before
  the expiry of the claims. In the remaining case, an HMAC method, a signature that
  verifies and an expiry ahead, it returns the claims.
\<close>

theorem ValidateToken_rejects:
  "((\<exists>err. ParseUnverified lib tokenString = Inl err) \<longrightarrow>
      (\<exists>err. ValidateToken config lib now tokenString = Inl (Errorf ''invalid token: '' err))) \<and>
   (\<forall>token. ParseUnverified lib tokenString = Inr token \<longrightarrow>
      ((\<forall>name. Method token \<noteq> SigningMethodHMAC name) \<longrightarrow>
         (\<exists>err. ValidateToken config lib now tokenString = Inl (Errorf ''invalid token: '' err))) \<and>
      ((\<exists>err. Verify lib (Method token) tokenString (JWT_Secret config) = Some err) \<longrightarrow>
         (\<exists>err. ValidateToken config lib now tokenString = Inl (Errorf ''invalid token: '' err))) \<and>
      (GetExpirationTime (jwt_Token.Claims token) \<le> now \<longrightarrow>
         (\<exists>err. ValidateToken config lib now tokenString = Inl (Errorf ''invalid token: '' err))) \<and>
      ((\<exists>name. Method token = SigningMethodHMAC name) \<and>
       Verify lib (Method token) tokenString (JWT_Secret config) = None \<and>
       now < GetExpirationTime (jwt_Token.Claims token) \<longrightarrow>
         ValidateToken config lib now tokenString = Inr (jwt_Token.Claims token)))"
proof (intro conjI allI impI)
  assume "\<exists>err. ParseUnverified lib tokenString = Inl err"
  then show "\<exists>err. ValidateToken config lib now tokenString = Inl (Errorf ''invalid token: '' err)"
    by (auto simp: ValidateToken_def ParseWithClaims_def)
next
  fix token
  assume parsed: "ParseUnverified lib tokenString = Inr token"
    and "\<forall>name. Method token \<noteq> SigningMethodHMAC name"
  with keyFunc_cases [of token config] obtain err where "keyFunc config token = Inl err"
    by blast
  with parsed show "\<exists>err. ValidateToken config lib now tokenString = Inl (Errorf ''invalid token: '' err)"
    by (simp add: ValidateToken_def ParseWithClaims_def)
next
  fix token
  assume parsed: "ParseUnverified lib tokenString = Inr token"
    and "\<exists>err. Verify lib (Method token) tokenString (JWT_Secret config) = Some err"
  then obtain err where bad: "Verify lib (Method token) tokenString (JWT_Secret config) = Some err"
    by blast
  from keyFunc_cases [of token config] parsed bad
  show "\<exists>err. ValidateToken config lib now tokenString = Inl (Errorf ''invalid token: '' err)"
    by (auto simp: ValidateToken_def ParseWithClaims_def)
next
  fix token
  assume parsed: "ParseUnverified lib tokenString = Inr token"
    and late: "GetExpirationTime (jwt_Token.Claims token) \<le> now"
  from keyFunc_cases [of token config] parsed late
  show "\<exists>err. ValidateToken config lib now tokenString = Inl (Errorf ''invalid token: '' err)"
    by (auto simp: ValidateToken_def ParseWithClaims_def split: option.splits)
next
  fix token
  assume parsed: "ParseUnverified lib tokenString = Inr token"
    and ok: "(\<exists>name. Method token = SigningMethodHMAC name) \<and>
       Verify lib (Method token) tokenString (JWT_Secret config) = None \<and>
       now < GetExpirationTime (jwt_Token.Claims token)"
  from keyFunc_cases [of token config] ok have "keyFunc config token = Inr (JWT_Secret config)"
    by blast
  with parsed ok show "ValidateToken config lib now tokenString = Inr (jwt_Token.Claims token)"
    by (simp add: ValidateToken_def ParseWithClaims_def)
qed

theorem ValidateToken_rejects_witness:
  "ValidateToken example_config example_jwt_library (1000 * Second) ''rs256-token'' =
     Inl (Errorf ''invalid token: ''
       (Errorf ''token is unverifiable: error while executing keyfunc: ''
         (New ''unexpected signing method: RS256''))) \<and>
   ValidateToken example_config example_jwt_library (1000 * Second) ''hs256-token'' = Inr example_claims \<and>
   (\<exists>err. ValidateToken example_config example_jwt_library (2000 * Second) ''hs256-token'' =
      Inl (Errorf ''invalid token: '' err)) \<and>
   (\<exists>err. ValidateToken example_config example_jwt_library (1000 * Second) ''not a token'' =
      Inl (Errorf ''invalid token: '' err))"
proof -
  have parsed: "ParseUnverified example_jwt_library ''hs256-token'' =
      Inr \<lparr>Method = SigningMethodHMAC ''HS256'', Claims = example_claims, Valid = False\<rparr>"
    by (simp add: example_jwt_library_def)
  have late: "GetExpirationTime (jwt_Token.Claims
      \<lparr>Method = SigningMethodHMAC ''HS256'', Claims = example_claims, Valid = False\<rparr>) \<le> 2000 * Second"
    by (simp add: GetExpirationTime_def example_claims_def)
  have malformed: "\<exists>err. ParseUnverified example_jwt_library ''not a token'' = Inl err"
    by (simp add: example_jwt_library_def)
  note expired = ValidateToken_rejects [where lib = example_jwt_library and config = example_config
      and now = "2000 * Second", THEN conjunct2, rule_format, OF parsed, THEN conjunct2, THEN conjunct2,
      THEN conjunct1, THEN mp, OF late]
  note garbled = ValidateToken_rejects [where lib = example_jwt_library and config = example_config
      and now = "1000 * Second", THEN conjunct1, THEN mp, OF malformed]
  have run: "ValidateToken example_config example_jwt_library (1000 * Second) ''rs256-token'' =
     Inl (Errorf ''invalid token: ''
       (Errorf ''token is unverifiable: error while executing keyfunc: ''
         (New ''unexpected signing method: RS256'')))"
    "ValidateToken example_config example_jwt_library (1000 * Second) ''hs256-token'' = Inr example_claims"
    by (simp_all add: ValidateToken_def ParseWithClaims_def keyFunc_def GetExpirationTime_def
      example_jwt_library_def example_claims_def example_config_def Second_def)
  from run expired garbled show ?thesis
    by (intro conjI)
qed

section \<open>A challenge consumed between the fetch and the re-check\<close>

lemma VerifyOTP_interleaved_alone:
  "VerifyOTP_interleaved config env v (\<lambda>s. s) s = VerifyOTP config env v s"
  by (simp add: VerifyOTP_interleaved_def VerifyOTP_def)

lemma example_other_request_state:
  "example_other_request example_state =
     example_state
        \<lparr>otps := snd (MarkAsUsed None ''+1555000111'' (otps example_state)),
         users := users example_state @
           [\<lparr>User.ID = ''6ba7b810-9dad-11d1-80b4-00c04fd430c8'', User.PhoneNumber = ''+1555000111'',
             User.CreatedAt = 500 * Second + 4, User.UpdatedAt = 500 * Second + 5,
             User.LastLoginAt = Some (500 * Second + 5)\<rparr>]\<rparr>"
  using example_VerifyOTP_run by (simp add: example_other_request_def example_verification_def)

lemma example_second_fetch:
  "GetByPhoneNumber (get_otp_fault example_second_env) (sql_NOW example_second_env)
      (OTPVerification.PhoneNumber example_verification) (otps example_state) =
     Inr (Some \<lparr>OTP.PhoneNumber = ''+1555000111'', OTP.Code = ''333333'',
          OTP.ExpiresAt = 580 * Second, OTP.CreatedAt = 460 * Second, OTP.Used = False\<rparr>)"
  by (simp add: GetByPhoneNumber_def example_defs example_second_env_def example_verification_def)

text \<open>
  C3. The claim holds for one request alone, and of a challenge that expires between
  the fetch and the re-check. It fails of a challenge that another request consumes in
  between: the re-check of line 89 reads \<^verbatim>\<open>Used\<close> of the struct scanned at line 74,
  which the filter of the query made false, and \<^verbatim>\<open>MarkAsUsed\<close> does not tell how many
  rows it changed. Here a first request verifies the code and consumes the challenge
  after a second request has fetched it; no query finds a valid challenge of the
  identity any more, and the second request does not fail with \<open>ChallengeExpired\<close>:
  it succeeds on the consumed challenge.
\<close>

theorem VerifyOTP_accepts_consumed_challenge:
  "fst (VerifyOTP example_config example_verify_env example_verification example_state) =
     Inr \<lparr>Token = ''HS256.6ba7b810-9dad-11d1-80b4-00c04fd430c8.+1555000111'',
           User = \<lparr>UserResponse.ID = ''6ba7b810-9dad-11d1-80b4-00c04fd430c8'',
                    UserResponse.PhoneNumber = ''+1555000111'',
                    UserResponse.CreatedAt = 500 * Second + 4,
                    UserResponse.LastLoginAt = Some (500 * Second + 5)\<rparr>,
           AuthResponse.ExpiresAt = 500 * Second + 6 + 24 * (60 * Minute)\<rparr> \<and>
   \<lparr>OTP.PhoneNumber = ''+1555000111'', OTP.Code = ''333333'',
     OTP.ExpiresAt = 580 * Second, OTP.CreatedAt = 460 * Second, OTP.Used = True\<rparr>
     \<in> set (otps (example_other_request example_state)) \<and>
   GetByPhoneNumber None (sql_NOW example_second_env) ''+1555000111''
     (otps (example_other_request example_state)) = Inr None \<and>
   fst (VerifyOTP_interleaved example_config example_second_env example_verification
          example_other_request example_state) =
     Inr \<lparr>Token = ''HS256.6ba7b810-9dad-11d1-80b4-00c04fd430c8.+1555000111'',
           User = \<lparr>UserResponse.ID = ''6ba7b810-9dad-11d1-80b4-00c04fd430c8'',
                    UserResponse.PhoneNumber = ''+1555000111'',
                    UserResponse.CreatedAt = 500 * Second + 4,
                    UserResponse.LastLoginAt = Some (500 * Second + 8)\<rparr>,
           AuthResponse.ExpiresAt = 500 * Second + 9 + 24 * (60 * Minute)\<rparr>"
proof -
  have first: "fst (VerifyOTP example_config example_verify_env example_verification example_state) =
     Inr \<lparr>Token = ''HS256.6ba7b810-9dad-11d1-80b4-00c04fd430c8.+1555000111'',
           User = \<lparr>UserResponse.ID = ''6ba7b810-9dad-11d1-80b4-00c04fd430c8'',
                    UserResponse.PhoneNumber = ''+1555000111'',
                    UserResponse.CreatedAt = 500 * Second + 4,
                    UserResponse.LastLoginAt = Some (500 * Second + 5)\<rparr>,
           AuthResponse.ExpiresAt = 500 * Second + 6 + 24 * (60 * Minute)\<rparr>"
    using example_VerifyOTP_run by (simp add: example_verification_def)
  have consumed: "\<lparr>OTP.PhoneNumber = ''+1555000111'', OTP.Code = ''333333'',
     OTP.ExpiresAt = 580 * Second, OTP.CreatedAt = 460 * Second, OTP.Used = True\<rparr>
     \<in> set (otps (example_other_request example_state))"
    unfolding example_other_request_state by (simp add: MarkAsUsed_def example_state_def)
  have gone: "GetByPhoneNumber None (sql_NOW example_second_env) ''+1555000111''
     (otps (example_other_request example_state)) = Inr None"
    by (simp add: example_other_request_state MarkAsUsed_none_valid)
  have second: "fst (VerifyOTP_interleaved example_config example_second_env example_verification
          example_other_request example_state) =
     Inr \<lparr>Token = ''HS256.6ba7b810-9dad-11d1-80b4-00c04fd430c8.+1555000111'',
           User = \<lparr>UserResponse.ID = ''6ba7b810-9dad-11d1-80b4-00c04fd430c8'',
                    UserResponse.PhoneNumber = ''+1555000111'',
                    UserResponse.CreatedAt = 500 * Second + 4,
                    UserResponse.LastLoginAt = Some (500 * Second + 8)\<rparr>,
           AuthResponse.ExpiresAt = 500 * Second + 9 + 24 * (60 * Minute)\<rparr>"
    unfolding VerifyOTP_interleaved_def example_second_fetch example_other_request_state
    by (simp add: service_defs example_defs example_second_env_def example_verification_def)
  from first consumed gone second show ?thesis
    by (intro conjI)
qed

text \<open>
  The re-check accepts at the instant of the expiry itself: \<^verbatim>\<open>IsExpired\<close> is
  \<^verbatim>\<open>time.Now().After(o.ExpiresAt)\<close>. The query at 579 seconds finds the challenge
  that expires at 580 seconds, and the re-check at 580 seconds lets it pass.
\<close>

lemma VerifyOTP_accepts_at_expiry:
  "fst (VerifyOTP example_config
          (example_verify_env\<lparr>sql_NOW := 579 * Second, now_IsValid := 580 * Second\<rparr>)
          example_verification example_state) =
     Inr \<lparr>Token = ''HS256.6ba7b810-9dad-11d1-80b4-00c04fd430c8.+1555000111'',
           User = \<lparr>UserResponse.ID = ''6ba7b810-9dad-11d1-80b4-00c04fd430c8'',
                    UserResponse.PhoneNumber = ''+1555000111'',
                    UserResponse.CreatedAt = 500 * Second + 4,
                    UserResponse.LastLoginAt = Some (500 * Second + 5)\<rparr>,
           AuthResponse.ExpiresAt = 500 * Second + 6 + 24 * (60 * Minute)\<rparr>"
  by (simp add: service_defs example_defs example_verification_def)

section \<open>Minting and validating\<close>






end
